theory Spec2Isabelle
  imports Main "HOL-Library.Sublist"
begin

section \<open>Python strings\<close>

text \<open>
  A Python \<^verbatim>\<open>str\<close> is a sequence of Unicode code points, so a string is a list of
  code points (natural numbers), not a list of bytes. \<open>ascii\<close> embeds an ASCII
  literal of the source.
\<close>

type_synonym codepoint = nat
type_synonym pystr = "codepoint list"

definition ascii :: "string \<Rightarrow> pystr" where
  "ascii s = map of_char s"

text \<open>
  The character classes and the case mapping of code points from 128 on come from the
  Unicode database of the Python runtime, which is no part of the repository: they are
  parameters. On ASCII the runtime's tables are small and written out below.
  \<^item> \<open>uni_isalnum\<close>: \<^verbatim>\<open>str.isalnum\<close> of one character;
  \<^item> \<open>uni_isspace\<close>: \<^verbatim>\<open>str.isspace\<close> of one character;
  \<^item> \<open>uni_lower\<close>: \<^verbatim>\<open>str.lower\<close> of a string that is not pure ASCII.
\<close>

record unicode_db =
  uni_isalnum :: "codepoint \<Rightarrow> bool"
  uni_isspace :: "codepoint \<Rightarrow> bool"
  uni_lower :: "pystr \<Rightarrow> pystr"

definition is_ascii :: "pystr \<Rightarrow> bool" where
  "is_ascii s = list_all (\<lambda>c. c < 128) s"

definition ascii_lower :: "codepoint \<Rightarrow> codepoint" where
  "ascii_lower c = (if 65 \<le> c \<and> c \<le> 90 then c + 32 else c)"

text \<open>\<^verbatim>\<open>str.lower()\<close>: CPython maps a pure-ASCII string bytewise and sends every other
  string through the Unicode case operation.\<close>

definition py_lower :: "unicode_db \<Rightarrow> pystr \<Rightarrow> pystr" where
  "py_lower db s = (if is_ascii s then map ascii_lower s else uni_lower db s)"

definition py_isalnum :: "unicode_db \<Rightarrow> codepoint \<Rightarrow> bool" where
  "py_isalnum db c =
     (if c < 128 then (48 \<le> c \<and> c \<le> 57) \<or> (65 \<le> c \<and> c \<le> 90) \<or> (97 \<le> c \<and> c \<le> 122)
      else uni_isalnum db c)"

definition py_isspace :: "unicode_db \<Rightarrow> codepoint \<Rightarrow> bool" where
  "py_isspace db c =
     (if c < 128 then (9 \<le> c \<and> c \<le> 13) \<or> (28 \<le> c \<and> c \<le> 32)
      else uni_isspace db c)"

text \<open>The regular expression classes \<^verbatim>\<open>\w\<close> (alphanumeric or underscore) and \<^verbatim>\<open>\s\<close> of a
  \<^verbatim>\<open>str\<close> pattern.\<close>

definition re_word :: "unicode_db \<Rightarrow> codepoint \<Rightarrow> bool" where
  "re_word db c = (py_isalnum db c \<or> c = 95)"

definition re_space :: "unicode_db \<Rightarrow> codepoint \<Rightarrow> bool" where
  "re_space db c = py_isspace db c"

text \<open>\<^verbatim>\<open>ALPHANUMERIC_REGEX = re.compile(r'[^\w\s]')\<close>: the pattern matches exactly one
  character, one that is neither in \<^verbatim>\<open>\w\<close> nor in \<^verbatim>\<open>\s\<close>.\<close>

definition ALPHANUMERIC_REGEX :: "unicode_db \<Rightarrow> codepoint \<Rightarrow> bool" where
  "ALPHANUMERIC_REGEX db c = (\<not> (re_word db c \<or> re_space db c))"

text \<open>\<^verbatim>\<open>pattern.sub('', s)\<close> for a pattern of one character class: the scan goes left to
  right, a matching character is replaced by the empty string, any other is copied.\<close>

fun re_sub_empty :: "(codepoint \<Rightarrow> bool) \<Rightarrow> pystr \<Rightarrow> pystr" where
  "re_sub_empty pat [] = []"
| "re_sub_empty pat (c # cs) =
     (if pat c then re_sub_empty pat cs else c # re_sub_empty pat cs)"

text \<open>\<^verbatim>\<open>str.strip()\<close> without argument: skip whitespace from the left, then from the
  right.\<close>

fun lstrip :: "unicode_db \<Rightarrow> pystr \<Rightarrow> pystr" where
  "lstrip db [] = []"
| "lstrip db (c # cs) = (if py_isspace db c then lstrip db cs else c # cs)"

definition rstrip :: "unicode_db \<Rightarrow> pystr \<Rightarrow> pystr" where
  "rstrip db s = rev (lstrip db (rev s))"

definition strip :: "unicode_db \<Rightarrow> pystr \<Rightarrow> pystr" where
  "strip db s = rstrip db (lstrip db s)"

text \<open>The cleaning expression of module 2, lines 36 and 57:
  \<^verbatim>\<open>ALPHANUMERIC_REGEX.sub('', text.lower()).strip()\<close>.\<close>

definition clean_text :: "unicode_db \<Rightarrow> pystr \<Rightarrow> pystr" where
  "clean_text db text = strip db (re_sub_empty (ALPHANUMERIC_REGEX db) (py_lower db text))"

text \<open>What the runtime's lowercasing is assumed to satisfy where a claim needs it: text
  that came out of \<^verbatim>\<open>lower()\<close> stays as it is under \<^verbatim>\<open>lower()\<close>, also after characters
  were deleted from it.\<close>

definition lower_stable :: "unicode_db \<Rightarrow> bool" where
  "lower_stable db = (\<forall>s t. subseq t (uni_lower db s) \<longrightarrow> py_lower db t = t)"

text \<open>A small stand-in for the Unicode database, used for concrete evaluation: beyond
  ASCII it knows the letters U+00C9 and U+00E9 (E and e with acute accent, the first
  lowercased to the second) and the no-break space U+00A0.\<close>

definition sample_lower :: "codepoint \<Rightarrow> codepoint" where
  "sample_lower c = (if c = 201 then 233 else ascii_lower c)"

definition sample_db :: unicode_db where
  "sample_db = \<lparr>uni_isalnum = (\<lambda>c. c = 201 \<or> c = 233), uni_isspace = (\<lambda>c. c = 160),
     uni_lower = map sample_lower\<rparr>"

section \<open>Python values, exceptions and the JSON encoder\<close>

text \<open>
  A raised exception is a value. \<^verbatim>\<open>except Exception\<close> catches the instances of
  \<^verbatim>\<open>Exception\<close>; \<^verbatim>\<open>KeyboardInterrupt\<close> and \<^verbatim>\<open>SystemExit\<close> derive from
  \<^verbatim>\<open>BaseException\<close> only and pass through such a handler. \<open>LibraryError n\<close> stands for
  any other instance of \<^verbatim>\<open>Exception\<close> raised inside the inference library.
  \<^verbatim>\<open>UnicodeEncodeError\<close> and \<^verbatim>\<open>ValueError\<close> are what \<^verbatim>\<open>print\<close> raises on a standard output that
  cannot encode the text, or that is closed.
\<close>

datatype exn = KeyError | TypeError | AttributeError | IndexError | UnicodeEncodeError
  | ValueError | LibraryError nat | KeyboardInterrupt | SystemExit

fun is_Exception :: "exn \<Rightarrow> bool" where
  "is_Exception KeyboardInterrupt = False"
| "is_Exception SystemExit = False"
| "is_Exception e = True"

text \<open>The values met under \<^verbatim>\<open>result["text"]\<close>: a \<^verbatim>\<open>str\<close>, \<^verbatim>\<open>None\<close>, or some other object
  (taken to have no method \<^verbatim>\<open>lower\<close>). What an inference call returns is a \<^verbatim>\<open>dict\<close>
  with string keys, or an object that cannot be subscripted.\<close>

datatype pyval = PyStr pystr | PyNone | PyObject nat

datatype result = PyDict "(pystr \<times> pyval) list" | PyOpaque nat

text \<open>\<^verbatim>\<open>result[key]\<close>\<close>

fun py_getitem :: "result \<Rightarrow> pystr \<Rightarrow> exn + pyval" where
  "py_getitem (PyDict d) key = (case map_of d key of None \<Rightarrow> Inl KeyError | Some v \<Rightarrow> Inr v)"
| "py_getitem (PyOpaque n) key = Inl TypeError"

text \<open>\<^verbatim>\<open>ALPHANUMERIC_REGEX.sub('', v.lower()).strip()\<close> for a value \<open>v\<close> of any type.\<close>

fun cleaned :: "unicode_db \<Rightarrow> pyval \<Rightarrow> exn + pystr" where
  "cleaned db (PyStr s) = Inr (clean_text db s)"
| "cleaned db v = Inl AttributeError"

text \<open>The JSON-serialisable values: \<^verbatim>\<open>None\<close>, booleans, strings, lists, and dicts with
  string keys in insertion order.\<close>

datatype json = JNull | JBool bool | JString pystr | JArray "json list"
  | JObject "(pystr \<times> json) list"

text \<open>\<^verbatim>\<open>'{0:04x}'.format(n)\<close> for \<open>n < 65536\<close>.\<close>

definition hex_digit :: "nat \<Rightarrow> codepoint" where
  "hex_digit d = (if d < 10 then 48 + d else 87 + d)"

definition hex4 :: "nat \<Rightarrow> pystr" where
  "hex4 n = [hex_digit (n div 4096 mod 16), hex_digit (n div 256 mod 16),
             hex_digit (n div 16 mod 16), hex_digit (n mod 16)]"

text \<open>\<^verbatim>\<open>json.dumps\<close> with its defaults (\<^verbatim>\<open>ensure_ascii=True\<close>, separators \<^verbatim>\<open>', '\<close> and
  \<^verbatim>\<open>': '\<close>). One character of a string: the quote, the backslash and five control
  characters have short escapes; printable ASCII is copied; everything else becomes
  \<^verbatim>\<open>\uXXXX\<close>, a code point from 65536 on as a surrogate pair.\<close>

definition escape_char :: "codepoint \<Rightarrow> pystr" where
  "escape_char c =
     (if c = 34 then [92, 34]
      else if c = 92 then [92, 92]
      else if c = 10 then [92, 110]
      else if c = 13 then [92, 114]
      else if c = 9 then [92, 116]
      else if c = 8 then [92, 98]
      else if c = 12 then [92, 102]
      else if 32 \<le> c \<and> c \<le> 126 then [c]
      else if c < 65536 then [92, 117] @ hex4 c
      else [92, 117] @ hex4 (55296 + ((c - 65536) div 1024) mod 1024) @
           [92, 117] @ hex4 (56320 + (c - 65536) mod 1024))"

definition encode_basestring_ascii :: "pystr \<Rightarrow> pystr" where
  "encode_basestring_ascii s = [34] @ concat (map escape_char s) @ [34]"

fun join :: "pystr \<Rightarrow> pystr list \<Rightarrow> pystr" where
  "join sep [] = []"
| "join sep [x] = x"
| "join sep (x # y # ys) = x @ sep @ join sep (y # ys)"

fun json_dumps :: "json \<Rightarrow> pystr" where
  "json_dumps JNull = ascii ''null''"
| "json_dumps (JBool b) = (if b then ascii ''true'' else ascii ''false'')"
| "json_dumps (JString s) = encode_basestring_ascii s"
| "json_dumps (JArray xs) = [91] @ join (ascii '', '') (map json_dumps xs) @ [93]"
| "json_dumps (JObject kvs) =
     [123] @ join (ascii '', '')
       (map (\<lambda>(k, v). encode_basestring_ascii k @ ascii '': '' @ json_dumps v) kvs) @ [125]"

text \<open>\<^verbatim>\<open>d[key] = v\<close> on a dict: an existing key keeps its place, a new key goes last.\<close>

fun dict_setitem :: "(pystr \<times> json) list \<Rightarrow> pystr \<Rightarrow> json \<Rightarrow> (pystr \<times> json) list" where
  "dict_setitem [] key v = [(key, v)]"
| "dict_setitem ((k, w) # d) key v =
     (if k = key then (k, v) # d else (k, w) # dict_setitem d key v)"

text \<open>The response literal of module 2 (lines 31 to 33 and 49 to 51).\<close>

definition response0 :: json where
  "response0 = JObject [(ascii ''channel'',
      JObject [(ascii ''alternatives'', JArray [JObject [(ascii ''transcript'', JString [])]])])]"

text \<open>\<^verbatim>\<open>response["channel"]["alternatives"][0]["transcript"] = cleaned_text\<close>: two
  dict lookups and a list index reach the innermost dict, which is updated in place.\<close>

definition set_transcript :: "json \<Rightarrow> pystr \<Rightarrow> exn + json" where
  "set_transcript response cleaned_text =
     (case response of
        JObject d \<Rightarrow>
          (case map_of d (ascii ''channel'') of
             None \<Rightarrow> Inl KeyError
           | Some (JObject c) \<Rightarrow>
               (case map_of c (ascii ''alternatives'') of
                  None \<Rightarrow> Inl KeyError
                | Some (JArray []) \<Rightarrow> Inl IndexError
                | Some (JArray (JObject a # rest)) \<Rightarrow>
                    Inr (JObject (dict_setitem d (ascii ''channel'')
                      (JObject (dict_setitem c (ascii ''alternatives'')
                        (JArray (JObject (dict_setitem a (ascii ''transcript'')
                           (JString cleaned_text)) # rest))))))
                | Some _ \<Rightarrow> Inl TypeError)
           | Some _ \<Rightarrow> Inl TypeError)
      | _ \<Rightarrow> Inl TypeError)"

section \<open>The inference library and the process state\<close>

text \<open>
  The package \<^verbatim>\<open>whisper\<close> is external: its entry points are parameters, each returning a
  value or raising. \<open>'m\<close> is a loaded model, \<open>'a\<close> an audio input (a path, an array or a
  tensor), \<open>'t\<close> a spectrogram tensor, \<open>'o\<close> a decoding options object.
  \<^item> \<open>whisper_load_model path in_memory\<close>
  \<^item> \<open>whisper_transcribe model audio fp16\<close> (always called with \<^verbatim>\<open>verbose=None\<close>); the
    model argument is whatever \<^verbatim>\<open>MODEL\<close> holds, \<^verbatim>\<open>None\<close> included
  \<^item> \<open>tensor_to mel model\<close> is \<^verbatim>\<open>mel.to(model.device)\<close> for a model that is not \<^verbatim>\<open>None\<close>
\<close>

record ('m, 'a, 't, 'o) whisper =
  whisper_load_model :: "pystr \<Rightarrow> bool \<Rightarrow> exn + 'm"
  whisper_transcribe :: "'m option \<Rightarrow> 'a \<Rightarrow> bool \<Rightarrow> exn + result"
  whisper_pad_or_trim :: "'a \<Rightarrow> exn + 'a"
  whisper_log_mel_spectrogram :: "'a \<Rightarrow> exn + 't"
  tensor_to :: "'t \<Rightarrow> 'm \<Rightarrow> exn + 't"
  whisper_DecodingOptions :: "bool \<Rightarrow> exn + 'o"
  whisper_decode :: "'m \<Rightarrow> 't \<Rightarrow> 'o \<Rightarrow> exn + result"

text \<open>
  The state of one module: the global \<^verbatim>\<open>MODEL\<close>, what was printed, the condition of the
  standard output (\<open>print_error st p\<close> is the exception that printing \<open>p\<close> raises, if any),
  and the calls made into the library so far (a trace, so that the number of inference
  calls can be stated).
\<close>

datatype printed = PrintMessage pystr | PrintException exn

datatype call = CallLoadModel | CallTranscribe | CallPadOrTrim | CallLogMelSpectrogram
  | CallTo | CallDecodingOptions | CallDecode

record 'm state =
  MODEL :: "'m option"
  stdout :: "printed list"
  print_error :: "printed \<Rightarrow> exn option"
  calls :: "call list"

definition called :: "call \<Rightarrow> 'm state \<Rightarrow> 'm state" where
  "called c st = st\<lparr>calls := calls st @ [c]\<rparr>"

text \<open>\<^verbatim>\<open>print(p)\<close> writes \<open>p\<close>, or raises and writes nothing.\<close>

definition print :: "printed \<Rightarrow> 'm state \<Rightarrow> (exn + unit) \<times> 'm state" where
  "print p st =
     (case print_error st p of
        None \<Rightarrow> (Inr (), st\<lparr>stdout := stdout st @ [p]\<rparr>)
      | Some e \<Rightarrow> (Inl e, st))"

text \<open>\<^verbatim>\<open>print(p)\<close> followed by \<^verbatim>\<open>return v\<close>, with no handler around the \<^verbatim>\<open>print\<close>: an exception
  that \<^verbatim>\<open>print\<close> raises leaves the function.\<close>

definition print_and_return :: "printed \<Rightarrow> 'v \<Rightarrow> 'm state \<Rightarrow> (exn + 'v) \<times> 'm state" where
  "print_and_return p v st =
     (case print p st of
        (Inl e, st') \<Rightarrow> (Inl e, st')
      | (Inr u, st') \<Rightarrow> (Inr v, st'))"

section \<open>Module 1: btfm/src/transcribe.py\<close>

text \<open>
  Both modules define \<^verbatim>\<open>load_model\<close> and \<^verbatim>\<open>transcribe\<close>, so the definitions carry the module
  as a prefix: \<open>btfm_\<close> for module 1 and \<open>ws_\<close> for module 2 (whisper-server). A function
  takes the library and the state of its module and returns its outcome with the new
  state: \<open>Inr\<close> the value returned, \<open>Inl\<close> an exception that reaches the caller.
\<close>

definition btfm_load_model ::
  "('m, 'a, 't, 'o) whisper \<Rightarrow> 'm state \<Rightarrow> pystr \<Rightarrow> (exn + unit) \<times> 'm state" where
  "btfm_load_model lib st path =
     (case whisper_load_model lib path False of
        Inl e \<Rightarrow> (Inl e, called CallLoadModel st)
      | Inr m \<Rightarrow> (Inr (), (called CallLoadModel st)\<lparr>MODEL := Some m\<rparr>))"

text \<open>The message of line 27.\<close>

definition programmer_error :: printed where
  "programmer_error = PrintMessage
     (ascii ''Programmer error, you must load the model first with '' @
      [39] @ ascii ''load_model()'' @ [39])"

text \<open>The body of the \<^verbatim>\<open>try\<close> block, lines 30 and 31.\<close>

definition btfm_transcribe_try ::
  "('m, 'a, 't, 'o) whisper \<Rightarrow> 'm \<Rightarrow> 'a \<Rightarrow> bool \<Rightarrow> exn + pyval" where
  "btfm_transcribe_try lib m audio fp16 =
     (case whisper_transcribe lib (Some m) audio fp16 of
        Inl e \<Rightarrow> Inl e
      | Inr result \<Rightarrow> py_getitem result (ascii ''text''))"

definition btfm_transcribe ::
  "('m, 'a, 't, 'o) whisper \<Rightarrow> 'm state \<Rightarrow> 'a \<Rightarrow> bool \<Rightarrow> (exn + pyval) \<times> 'm state" where
  "btfm_transcribe lib st audio fp16 =
     (let text0 = PyStr [] in
      case MODEL st of
        None \<Rightarrow> print_and_return programmer_error text0 st
      | Some m \<Rightarrow>
          (case btfm_transcribe_try lib m audio fp16 of
             Inr v \<Rightarrow> (Inr v, called CallTranscribe st)
           | Inl e \<Rightarrow>
               if is_Exception e
               then print_and_return (PrintException e) text0 (called CallTranscribe st)
               else (Inl e, called CallTranscribe st)))"

section \<open>Module 2: whisper-server/src/transcribe.py\<close>

definition ws_load_model ::
  "('m, 'a, 't, 'o) whisper \<Rightarrow> 'm state \<Rightarrow> pystr \<Rightarrow> (exn + unit) \<times> 'm state" where
  "ws_load_model lib st path =
     (case whisper_load_model lib path True of
        Inl e \<Rightarrow> (Inl e, called CallLoadModel st)
      | Inr m \<Rightarrow> (Inr (), (called CallLoadModel st)\<lparr>MODEL := Some m\<rparr>))"

text \<open>Lines 36 and 37 (57 and 58): clean \<^verbatim>\<open>result["text"]\<close> and store it in the response.\<close>

definition fill_response :: "unicode_db \<Rightarrow> json \<Rightarrow> result \<Rightarrow> exn + json" where
  "fill_response db response result =
     (case py_getitem result (ascii ''text'') of
        Inl e \<Rightarrow> Inl e
      | Inr v \<Rightarrow>
          (case cleaned db v of
             Inl e \<Rightarrow> Inl e
           | Inr cleaned_text \<Rightarrow> set_transcript response cleaned_text))"

text \<open>The \<^verbatim>\<open>try\<close> block of \<^verbatim>\<open>transcribe\<close>, lines 35 to 37.\<close>

definition ws_transcribe_try ::
  "unicode_db \<Rightarrow> ('m, 'a, 't, 'o) whisper \<Rightarrow> 'm state \<Rightarrow> 'a \<Rightarrow> json \<Rightarrow> (exn + json) \<times> 'm state" where
  "ws_transcribe_try db lib st audio response =
     (case whisper_transcribe lib (MODEL st) audio False of
        Inl e \<Rightarrow> (Inl e, called CallTranscribe st)
      | Inr result \<Rightarrow> (fill_response db response result, called CallTranscribe st))"

text \<open>What follows a \<^verbatim>\<open>try\<close> block in module 2: an instance of \<^verbatim>\<open>Exception\<close> is printed
  (inside the handler, so an exception of that \<^verbatim>\<open>print\<close> propagates) and the response,
  untouched, is serialised; a normal end serialises the filled response; anything else
  propagates.\<close>

definition ws_finish :: "json \<Rightarrow> (exn + json) \<times> 'm state \<Rightarrow> (exn + pystr) \<times> 'm state" where
  "ws_finish response outcome =
     (case outcome of
        (Inr response', st') \<Rightarrow> (Inr (json_dumps response'), st')
      | (Inl e, st') \<Rightarrow>
          if is_Exception e then print_and_return (PrintException e) (json_dumps response) st'
          else (Inl e, st'))"

definition ws_transcribe ::
  "unicode_db \<Rightarrow> ('m, 'a, 't, 'o) whisper \<Rightarrow> 'm state \<Rightarrow> 'a \<Rightarrow> (exn + pystr) \<times> 'm state" where
  "ws_transcribe db lib st audio =
     (let response = response0 in ws_finish response (ws_transcribe_try db lib st audio response))"

text \<open>The \<^verbatim>\<open>try\<close> block of \<^verbatim>\<open>transcribe_raw\<close>, lines 53 to 58. \<^verbatim>\<open>MODEL.device\<close> is
  evaluated after the spectrogram and raises \<^verbatim>\<open>AttributeError\<close> on \<^verbatim>\<open>None\<close>.\<close>

definition ws_transcribe_raw_try ::
  "unicode_db \<Rightarrow> ('m, 'a, 't, 'o) whisper \<Rightarrow> 'm state \<Rightarrow> 'a \<Rightarrow> json \<Rightarrow> (exn + json) \<times> 'm state" where
  "ws_transcribe_raw_try db lib st audio response =
     (let st1 = called CallPadOrTrim st in
      case whisper_pad_or_trim lib audio of
        Inl e \<Rightarrow> (Inl e, st1)
      | Inr audio' \<Rightarrow>
     (let st2 = called CallLogMelSpectrogram st1 in
      case whisper_log_mel_spectrogram lib audio' of
        Inl e \<Rightarrow> (Inl e, st2)
      | Inr mel0 \<Rightarrow>
     (case MODEL st of
        None \<Rightarrow> (Inl AttributeError, st2)
      | Some m \<Rightarrow>
     (let st3 = called CallTo st2 in
      case tensor_to lib mel0 m of
        Inl e \<Rightarrow> (Inl e, st3)
      | Inr mel \<Rightarrow>
     (let st4 = called CallDecodingOptions st3 in
      case whisper_DecodingOptions lib False of
        Inl e \<Rightarrow> (Inl e, st4)
      | Inr options \<Rightarrow>
     (let st5 = called CallDecode st4 in
      case whisper_decode lib m mel options of
        Inl e \<Rightarrow> (Inl e, st5)
      | Inr result \<Rightarrow> (fill_response db response result, st5)))))))"

definition ws_transcribe_raw ::
  "unicode_db \<Rightarrow> ('m, 'a, 't, 'o) whisper \<Rightarrow> 'm state \<Rightarrow> 'a \<Rightarrow> (exn + pystr) \<times> 'm state" where
  "ws_transcribe_raw db lib st audio =
     (let response = response0 in
      ws_finish response (ws_transcribe_raw_try db lib st audio response))"

section \<open>Reading JSON back\<close>

text \<open>
  What it means for a string to be valid JSON with a given value: a decoder after
  \<^verbatim>\<open>json.loads\<close> for strings, arrays, objects and the three literals (numbers are left
  out, so it accepts a part of JSON only). \<^verbatim>\<open>\uXXXX\<close> escapes are read as
  \<^verbatim>\<open>json.loads\<close> reads them, a high surrogate followed by a low one as one code point.
  \<open>parse_value\<close> takes fuel, \<open>json_loads\<close> gives it the length of the input.
\<close>

definition is_ws :: "codepoint \<Rightarrow> bool" where
  "is_ws c = (c = 32 \<or> c = 9 \<or> c = 10 \<or> c = 13)"

fun skip_ws :: "pystr \<Rightarrow> pystr" where
  "skip_ws [] = []"
| "skip_ws (c # cs) = (if is_ws c then skip_ws cs else c # cs)"

definition hex_val :: "codepoint \<Rightarrow> nat option" where
  "hex_val c =
     (if 48 \<le> c \<and> c \<le> 57 then Some (c - 48)
      else if 97 \<le> c \<and> c \<le> 102 then Some (c - 87)
      else if 65 \<le> c \<and> c \<le> 70 then Some (c - 55)
      else None)"

fun parse_hex4 :: "pystr \<Rightarrow> (nat \<times> pystr) option" where
  "parse_hex4 (a # b # c # d # rest) =
     (case (hex_val a, hex_val b, hex_val c, hex_val d) of
        (Some x, Some y, Some z, Some w) \<Rightarrow> Some (((x * 16 + y) * 16 + z) * 16 + w, rest)
      | _ \<Rightarrow> None)"
| "parse_hex4 s = None"

definition is_high_surrogate :: "codepoint \<Rightarrow> bool" where
  "is_high_surrogate u = (55296 \<le> u \<and> u \<le> 56319)"

definition is_low_surrogate :: "codepoint \<Rightarrow> bool" where
  "is_low_surrogate u = (56320 \<le> u \<and> u \<le> 57343)"

definition parse_unicode_escape :: "pystr \<Rightarrow> (codepoint \<times> pystr) option" where
  "parse_unicode_escape s =
     (case parse_hex4 s of
        None \<Rightarrow> None
      | Some (u, rest) \<Rightarrow>
          if is_high_surrogate u \<and> take 2 rest = [92, 117] then
            (case parse_hex4 (drop 2 rest) of
               None \<Rightarrow> None
             | Some (u2, rest2) \<Rightarrow>
                 if is_low_surrogate u2
                 then Some (65536 + (u - 55296) * 1024 + (u2 - 56320), rest2)
                 else Some (u, rest))
          else Some (u, rest))"

fun parse_escape :: "pystr \<Rightarrow> (codepoint \<times> pystr) option" where
  "parse_escape [] = None"
| "parse_escape (e # rest) =
     (if e = 34 then Some (34, rest)
      else if e = 92 then Some (92, rest)
      else if e = 47 then Some (47, rest)
      else if e = 98 then Some (8, rest)
      else if e = 102 then Some (12, rest)
      else if e = 110 then Some (10, rest)
      else if e = 114 then Some (13, rest)
      else if e = 116 then Some (9, rest)
      else if e = 117 then parse_unicode_escape rest
      else None)"

lemma parse_hex4_length: "parse_hex4 s = Some (u, rest) \<Longrightarrow> length rest < length s"
  by (induction s rule: parse_hex4.induct) (auto split: option.splits)

lemma parse_unicode_escape_length:
  "parse_unicode_escape s = Some (u, rest) \<Longrightarrow> length rest < length s"
  by (auto simp: parse_unicode_escape_def split: option.splits if_splits
      dest!: parse_hex4_length)

lemma parse_escape_length: "parse_escape s = Some (u, rest) \<Longrightarrow> length rest < length s"
  by (cases s) (auto split: if_splits dest: parse_unicode_escape_length)

function parse_chars :: "pystr \<Rightarrow> (pystr \<times> pystr) option" where
  "parse_chars [] = None"
| "parse_chars (c # cs) =
     (if c = 34 then Some ([], cs)
      else if c = 92 then
        (case parse_escape cs of
           None \<Rightarrow> None
         | Some (u, rest) \<Rightarrow>
             (case parse_chars rest of None \<Rightarrow> None | Some (s, r) \<Rightarrow> Some (u # s, r)))
      else if c < 32 then None
      else (case parse_chars cs of None \<Rightarrow> None | Some (s, r) \<Rightarrow> Some (c # s, r)))"
  by pat_completeness auto
termination
  by (relation "measure length") (auto dest: parse_escape_length)

fun parse_value :: "nat \<Rightarrow> pystr \<Rightarrow> (json \<times> pystr) option"
  and parse_elements :: "nat \<Rightarrow> pystr \<Rightarrow> (json list \<times> pystr) option"
  and parse_members :: "nat \<Rightarrow> pystr \<Rightarrow> ((pystr \<times> json) list \<times> pystr) option" where
  "parse_value 0 s = None"
| "parse_value (Suc n) [] = None"
| "parse_value (Suc n) (c # cs) =
     (if c = 34 then
        (case parse_chars cs of None \<Rightarrow> None | Some (str, rest) \<Rightarrow> Some (JString str, rest))
      else if c = 91 then
        (case skip_ws cs of
           [] \<Rightarrow> None
         | d # ds \<Rightarrow>
             if d = 93 then Some (JArray [], ds)
             else (case parse_elements n (d # ds) of
                     None \<Rightarrow> None
                   | Some (vs, rest) \<Rightarrow> Some (JArray vs, rest)))
      else if c = 123 then
        (case skip_ws cs of
           [] \<Rightarrow> None
         | d # ds \<Rightarrow>
             if d = 125 then Some (JObject [], ds)
             else (case parse_members n (d # ds) of
                     None \<Rightarrow> None
                   | Some (kvs, rest) \<Rightarrow> Some (JObject kvs, rest)))
      else if take 4 (c # cs) = ascii ''null'' then Some (JNull, drop 4 (c # cs))
      else if take 4 (c # cs) = ascii ''true'' then Some (JBool True, drop 4 (c # cs))
      else if take 5 (c # cs) = ascii ''false'' then Some (JBool False, drop 5 (c # cs))
      else None)"
| "parse_elements 0 s = None"
| "parse_elements (Suc n) s =
     (case parse_value n s of
        None \<Rightarrow> None
      | Some (v, rest) \<Rightarrow>
          (case skip_ws rest of
             [] \<Rightarrow> None
           | c # cs \<Rightarrow>
               if c = 93 then Some ([v], cs)
               else if c = 44 then
                 (case parse_elements n (skip_ws cs) of
                    None \<Rightarrow> None
                  | Some (vs, r) \<Rightarrow> Some (v # vs, r))
               else None))"
| "parse_members 0 s = None"
| "parse_members (Suc n) [] = None"
| "parse_members (Suc n) (q # s) =
     (if q \<noteq> 34 then None
      else
        (case parse_chars s of
           None \<Rightarrow> None
         | Some (key, rest) \<Rightarrow>
             (case skip_ws rest of
                [] \<Rightarrow> None
              | c # cs \<Rightarrow>
                  if c \<noteq> 58 then None
                  else
                    (case parse_value n (skip_ws cs) of
                       None \<Rightarrow> None
                     | Some (v, rest') \<Rightarrow>
                         (case skip_ws rest' of
                            [] \<Rightarrow> None
                          | c' # cs' \<Rightarrow>
                              if c' = 125 then Some ([(key, v)], cs')
                              else if c' = 44 then
                                (case parse_members n (skip_ws cs') of
                                   None \<Rightarrow> None
                                 | Some (kvs, r) \<Rightarrow> Some ((key, v) # kvs, r))
                              else None)))))"

definition json_loads :: "pystr \<Rightarrow> json option" where
  "json_loads s =
     (case parse_value (length s) (skip_ws s) of
        None \<Rightarrow> None
      | Some (v, rest) \<Rightarrow> if skip_ws rest = [] then Some v else None)"

text \<open>The fixed shape of a response, with the transcript \<open>t\<close>.\<close>

definition response_with :: "pystr \<Rightarrow> json" where
  "response_with t = JObject [(ascii ''channel'',
      JObject [(ascii ''alternatives'', JArray [JObject [(ascii ''transcript'', JString t)]])])]"

text \<open>What \<open>json_loads\<close> gives back for a string that \<open>json.dumps\<close> wrote: the string
  itself, but two code points that are a surrogate pair come back as one, and a code
  point is reduced into the range a surrogate pair can express.\<close>

definition norm_cp :: "codepoint \<Rightarrow> codepoint" where
  "norm_cp c = (if c < 65536 then c else 65536 + (c - 65536) mod 1048576)"

fun decoded :: "pystr \<Rightarrow> pystr" where
  "decoded [] = []"
| "decoded [c] = [norm_cp c]"
| "decoded (c # d # s) =
     (if is_high_surrogate c \<and> is_low_surrogate d
      then (65536 + (c - 55296) * 1024 + (d - 56320)) # decoded s
      else norm_cp c # decoded (d # s))"

definition no_low_start :: "pystr \<Rightarrow> bool" where
  "no_low_start tail =
     (take 2 tail \<noteq> [92, 117] \<or>
      (\<exists>u r. parse_hex4 (drop 2 tail) = Some (u, r) \<and> \<not> is_low_surrogate u))"

section \<open>A stub library and an initial state\<close>

text \<open>A stand-in for \<^verbatim>\<open>whisper\<close> as a test would patch it in: loading has the outcome
  \<open>loaded\<close>, inference (\<^verbatim>\<open>transcribe\<close> and \<^verbatim>\<open>decode\<close>) the outcome \<open>infer model\<close>, and
  the tensor operations succeed.\<close>

definition stub_whisper ::
  "(exn + nat) \<Rightarrow> (nat option \<Rightarrow> exn + result) \<Rightarrow> (nat, nat, nat, nat) whisper" where
  "stub_whisper loaded infer =
     \<lparr>whisper_load_model = (\<lambda>path in_memory. loaded),
      whisper_transcribe = (\<lambda>m audio fp16. infer m),
      whisper_pad_or_trim = (\<lambda>audio. Inr audio),
      whisper_log_mel_spectrogram = (\<lambda>audio. Inr audio),
      tensor_to = (\<lambda>mel m. Inr mel),
      whisper_DecodingOptions = (\<lambda>fp16. Inr 0),
      whisper_decode = (\<lambda>m mel options. infer (Some m))\<rparr>"

text \<open>An inference stub that returns the text \<open>t\<close> whatever the model, and one that raises
  on \<^verbatim>\<open>None\<close> as the library itself does.\<close>

definition says :: "pystr \<Rightarrow> nat option \<Rightarrow> exn + result" where
  "says t m = Inr (PyDict [(ascii ''text'', PyStr t)])"

definition says_if_loaded :: "pystr \<Rightarrow> nat option \<Rightarrow> exn + result" where
  "says_if_loaded t m =
     (case m of None \<Rightarrow> Inl AttributeError | Some h \<Rightarrow> Inr (PyDict [(ascii ''text'', PyStr t)]))"

definition fails :: "exn \<Rightarrow> nat option \<Rightarrow> exn + result" where
  "fails e m = Inl e"

definition state0 :: "nat state" where
  "state0 = \<lparr>MODEL = None, stdout = [], print_error = (\<lambda>p. None), calls = []\<rparr>"

text \<open>A standard output on which every \<^verbatim>\<open>print\<close> raises \<open>e\<close>.\<close>

definition broken_stdout :: "exn \<Rightarrow> nat state \<Rightarrow> nat state" where
  "broken_stdout e st = st\<lparr>print_error := (\<lambda>p. Some e)\<rparr>"

section \<open>Lemmas: text cleaning\<close>

lemma re_sub_empty_filter: "re_sub_empty pat s = filter (\<lambda>c. \<not> pat c) s"
  by (induction s) simp_all

lemma lstrip_dropWhile: "lstrip db s = dropWhile (py_isspace db) s"
  by (induction s) simp_all

lemma strip_eq: "strip db s = rev (dropWhile (py_isspace db) (rev (dropWhile (py_isspace db) s)))"
  by (simp add: strip_def rstrip_def lstrip_dropWhile)

lemma rev_dropWhile_decomp:
  "v = rev (dropWhile P (rev v)) @ rev (takeWhile P (rev v))"
  by (metis rev_append rev_rev_ident takeWhile_dropWhile_id)

lemma strip_decomp:
  "\<exists>l r. s = l @ strip db s @ r \<and> list_all (py_isspace db) l \<and> list_all (py_isspace db) r"
proof -
  let ?P = "py_isspace db"
  let ?v = "dropWhile ?P s"
  have 1: "s = takeWhile ?P s @ ?v" by simp
  have 2: "?v = strip db s @ rev (takeWhile ?P (rev ?v))"
    unfolding strip_eq by (rule rev_dropWhile_decomp)
  have 3: "list_all ?P (takeWhile ?P s)"
    by (simp add: list_all_iff) (meson set_takeWhileD)
  have 4: "list_all ?P (rev (takeWhile ?P (rev ?v)))"
    by (simp add: list_all_iff) (meson set_takeWhileD)
  from 1 2 have "s = takeWhile ?P s @ strip db s @ rev (takeWhile ?P (rev ?v))" by simp
  with 3 4 show ?thesis by blast
qed

lemma strip_ends:
  assumes "strip db s \<noteq> []"
  shows "\<not> py_isspace db (hd (strip db s))" and "\<not> py_isspace db (last (strip db s))"
proof -
  let ?P = "py_isspace db"
  let ?v = "dropWhile ?P s"
  let ?w = "dropWhile ?P (rev ?v)"
  from assms have w: "?w \<noteq> []" by (simp add: strip_eq)
  then have "\<not> ?P (hd ?w)" by (rule hd_dropWhile)
  with w show "\<not> ?P (last (strip db s))" by (simp add: strip_eq last_rev)
  from w have v: "?v \<noteq> []" by (metis dropWhile.simps(1) rev_is_Nil_conv)
  then have hv: "\<not> ?P (hd ?v)" by (rule hd_dropWhile)
  have "?v = rev ?w @ rev (takeWhile ?P (rev ?v))" by (rule rev_dropWhile_decomp)
  with w have "hd ?v = hd (rev ?w)" by (metis hd_append2 rev_is_Nil_conv)
  with hv show "\<not> ?P (hd (strip db s))" by (simp add: strip_eq)
qed

lemma strip_fixed:
  assumes "s = [] \<or> (\<not> py_isspace db (hd s) \<and> \<not> py_isspace db (last s))"
  shows "strip db s = s"
proof (cases "s = []")
  case True then show ?thesis by (simp add: strip_eq)
next
  case False
  with assms have h: "\<not> py_isspace db (hd s)" and l: "\<not> py_isspace db (last s)" by auto
  from False h have 1: "dropWhile (py_isspace db) s = s" by (cases s) auto
  from False l have 2: "dropWhile (py_isspace db) (rev s) = rev s"
    by (cases "rev s") (auto simp: last_rev hd_rev[symmetric])
  show ?thesis by (simp add: strip_eq 1 2)
qed

lemma strip_idem: "strip db (strip db s) = strip db s"
  using strip_ends[of db s] by (intro strip_fixed) blast

lemma subseq_strip: "subseq (strip db s) s"
proof -
  obtain l r where "s = l @ strip db s @ r" using strip_decomp by blast
  then show ?thesis
    by (metis list_emb_append2 list_emb_prefix subseq_order.order_refl)
qed

lemma subseq_set_subset: "subseq xs ys \<Longrightarrow> set xs \<subseteq> set ys"
  by (auto dest: list_emb_set)

lemma ALPHANUMERIC_REGEX_sub:
  "re_sub_empty (ALPHANUMERIC_REGEX db) s = filter (\<lambda>c. re_word db c \<or> re_space db c) s"
  by (simp add: re_sub_empty_filter ALPHANUMERIC_REGEX_def)

lemma clean_text_filter:
  "clean_text db text = strip db (filter (\<lambda>c. re_word db c \<or> re_space db c) (py_lower db text))"
  by (simp add: clean_text_def ALPHANUMERIC_REGEX_sub)

lemma subseq_clean_text: "subseq (clean_text db text) (py_lower db text)"
  unfolding clean_text_filter
  by (rule subseq_order.order_trans[OF subseq_strip subseq_filter_left])

lemma clean_text_kept: "list_all (\<lambda>c. re_word db c \<or> re_space db c) (clean_text db text)"
proof -
  have "set (clean_text db text) \<subseteq> set (filter (\<lambda>c. re_word db c \<or> re_space db c) (py_lower db text))"
    unfolding clean_text_filter by (rule subseq_set_subset[OF subseq_strip])
  then show ?thesis by (auto simp: list_all_iff)
qed

lemma ascii_lower_idem: "ascii_lower (ascii_lower c) = ascii_lower c"
  by (simp add: ascii_lower_def)

lemma ascii_lower_lt: "c < 128 \<Longrightarrow> ascii_lower c < 128"
  by (simp add: ascii_lower_def)

lemma py_lower_fixed_ascii:
  assumes "is_ascii text" and "subseq t (py_lower db text)"
  shows "py_lower db t = t"
proof -
  from assms(1) have l: "py_lower db text = map ascii_lower text" by (simp add: py_lower_def)
  from assms(2) have sub: "set t \<subseteq> set (map ascii_lower text)"
    unfolding l by (rule subseq_set_subset)
  with assms(1) have a: "is_ascii t"
    by (auto simp: is_ascii_def list_all_iff ascii_lower_lt)
  from sub have "map ascii_lower t = t"
    by (intro map_idI) (auto simp: ascii_lower_idem)
  with a show ?thesis by (simp add: py_lower_def)
qed

lemma py_lower_fixed_unicode:
  assumes "lower_stable db" and "\<not> is_ascii text" and "subseq t (py_lower db text)"
  shows "py_lower db t = t"
  using assms by (simp add: lower_stable_def py_lower_def)

lemma py_lower_clean_text:
  assumes "is_ascii text \<or> lower_stable db"
  shows "py_lower db (clean_text db text) = clean_text db text"
  using assms py_lower_fixed_ascii py_lower_fixed_unicode subseq_clean_text by blast

lemma clean_text_idem:
  assumes "is_ascii text \<or> lower_stable db"
  shows "clean_text db (clean_text db text) = clean_text db text"
proof -
  let ?r = "clean_text db text"
  have 1: "py_lower db ?r = ?r" using assms by (rule py_lower_clean_text)
  have 2: "filter (\<lambda>c. re_word db c \<or> re_space db c) ?r = ?r"
    using clean_text_kept[of db "text"] by (simp add: list_all_iff)
  have 3: "strip db ?r = ?r"
    unfolding clean_text_filter by (rule strip_idem)
  have "clean_text db ?r = strip db (filter (\<lambda>c. re_word db c \<or> re_space db c) (py_lower db ?r))"
    by (rule clean_text_filter)
  then show ?thesis by (simp only: 1 2 3)
qed

lemma sample_lower_idem: "sample_lower (sample_lower c) = sample_lower c"
  by (simp add: sample_lower_def ascii_lower_def)

lemma sample_lower_fixed: "sample_lower c = c \<Longrightarrow> ascii_lower c = c"
  by (simp add: sample_lower_def split: if_splits)

lemma lower_stable_sample_db: "lower_stable sample_db"
proof -
  have "py_lower sample_db t = t" if "subseq t (map sample_lower s)" for s t
  proof -
    from that have "set t \<subseteq> set (map sample_lower s)" by (rule subseq_set_subset)
    then have f: "\<forall>c\<in>set t. sample_lower c = c" by (auto simp: sample_lower_idem)
    then have "map sample_lower t = t" by (intro map_idI) simp
    moreover from f have "map ascii_lower t = t" by (intro map_idI) (simp add: sample_lower_fixed)
    ultimately show ?thesis by (simp add: py_lower_def sample_db_def)
  qed
  then show ?thesis by (simp add: lower_stable_def sample_db_def)
qed

section \<open>Lemmas: the JSON decoder on the encoder's output\<close>

lemma hex_val_hex_digit: "d < 16 \<Longrightarrow> hex_val (hex_digit d) = Some d"
  by (simp add: hex_val_def hex_digit_def)

lemma hex4_value:
  fixes n :: nat
  shows "4096 * (n div 4096) + 256 * (n div 256 mod 16) + n div 16 mod 16 * 16 + n mod 16 = n"
proof -
  have d1: "n div 16 div 16 = n div 256" and d2: "n div 256 div 16 = n div 4096"
    by (simp_all add: div_mult2_eq[symmetric])
  have a: "n = 16 * (n div 16) + n mod 16" by simp
  have "n div 16 = 16 * (n div 16 div 16) + n div 16 mod 16" by simp
  then have b: "n div 16 = 16 * (n div 256) + n div 16 mod 16" by (simp only: d1)
  have "n div 256 = 16 * (n div 256 div 16) + n div 256 mod 16" by simp
  then have c: "n div 256 = 16 * (n div 4096) + n div 256 mod 16" by (simp only: d2)
  from a b c show ?thesis by linarith
qed

lemma parse_hex4_hex4: "n < 65536 \<Longrightarrow> parse_hex4 (hex4 n @ rest) = Some (n, rest)"
  by (simp add: hex4_def hex_val_hex_digit hex4_value)

lemma parse_unicode_escape_single:
  assumes "c < 65536" and "is_high_surrogate c \<longrightarrow> no_low_start tail"
  shows "parse_unicode_escape (hex4 c @ tail) = Some (c, tail)"
  using assms
  by (auto simp: parse_unicode_escape_def parse_hex4_hex4 no_low_start_def)

lemma parse_unicode_escape_pair:
  assumes "c < 65536" and "d < 65536" and "is_high_surrogate c" and "is_low_surrogate d"
  shows "parse_unicode_escape (hex4 c @ [92, 117] @ hex4 d @ tail) =
         Some (65536 + (c - 55296) * 1024 + (d - 56320), tail)"
  using assms by (simp add: parse_unicode_escape_def parse_hex4_hex4)

lemma astral_value:
  fixes n :: nat
  shows "n div 1024 mod 1024 * 1024 + n mod 1024 = n mod 1048576"
proof -
  have "n mod 1048576 = n mod (1024 * 1024)" by simp
  also have "\<dots> = 1024 * (n div 1024 mod 1024) + n mod 1024" by (rule mod_mult2_eq)
  finally show ?thesis by simp
qed

lemma escape_char_short:
  "escape_char 34 = [92, 34]" "escape_char 92 = [92, 92]" "escape_char 10 = [92, 110]"
  "escape_char 13 = [92, 114]" "escape_char 9 = [92, 116]" "escape_char 8 = [92, 98]"
  "escape_char 12 = [92, 102]"
  by (simp_all add: escape_char_def)

lemma norm_cp_bmp: "c < 65536 \<Longrightarrow> norm_cp c = c"
  by (simp add: norm_cp_def)

lemma parse_chars_step:
  assumes "is_high_surrogate c \<longrightarrow> no_low_start tail"
  shows "parse_chars (escape_char c @ tail) =
         (case parse_chars tail of None \<Rightarrow> None | Some (s, r) \<Rightarrow> Some (norm_cp c # s, r))"
proof -
  consider (short) "c \<in> {34, 92, 10, 13, 9, 8, 12}"
    | (plain) "c \<notin> {34, 92, 10, 13, 9, 8, 12}" "32 \<le> c" "c \<le> 126"
    | (bmp) "c \<notin> {34, 92, 10, 13, 9, 8, 12}" "\<not> (32 \<le> c \<and> c \<le> 126)" "c < 65536"
    | (astral) "65536 \<le> c"
    by force
  then show ?thesis
  proof cases
    case short
    then show ?thesis
      by (elim insertE emptyE) (simp_all add: escape_char_short norm_cp_bmp split: option.splits)
  next
    case plain
    then show ?thesis by (simp add: escape_char_def norm_cp_def split: option.splits)
  next
    case bmp
    then have e: "escape_char c = [92, 117] @ hex4 c" by (simp add: escape_char_def)
    from bmp assms have "parse_unicode_escape (hex4 c @ tail) = Some (c, tail)"
      by (intro parse_unicode_escape_single) auto
    with bmp show ?thesis by (simp add: e norm_cp_def split: option.splits)
  next
    case astral
    define h where "h = 55296 + ((c - 65536) div 1024) mod 1024"
    define l where "l = 56320 + (c - 65536) mod 1024"
    from astral have e: "escape_char c = [92, 117] @ hex4 h @ [92, 117] @ hex4 l"
      by (simp add: escape_char_def h_def l_def)
    have p: "parse_unicode_escape (hex4 h @ [92, 117] @ hex4 l @ tail) =
          Some (65536 + (h - 55296) * 1024 + (l - 56320), tail)"
      by (rule parse_unicode_escape_pair)
         (simp_all add: is_high_surrogate_def is_low_surrogate_def h_def l_def)
    have v: "65536 + (h - 55296) * 1024 + (l - 56320) = norm_cp c"
      using astral astral_value[of "c - 65536"] by (simp add: h_def l_def norm_cp_def)
    have "parse_chars (escape_char c @ tail) =
          (case parse_unicode_escape (hex4 h @ [92, 117] @ hex4 l @ tail) of
             None \<Rightarrow> None
           | Some (u, rest) \<Rightarrow>
              (case parse_chars rest of None \<Rightarrow> None | Some (s, r) \<Rightarrow> Some (u # s, r)))"
      by (simp add: e)
    then show ?thesis by (simp only: p v option.case prod.case)
  qed
qed

lemma parse_chars_pair:
  assumes "is_high_surrogate c" and "is_low_surrogate d"
  shows "parse_chars (escape_char c @ escape_char d @ tail) =
         (case parse_chars tail of
            None \<Rightarrow> None
          | Some (s, r) \<Rightarrow> Some ((65536 + (c - 55296) * 1024 + (d - 56320)) # s, r))"
proof -
  from assms have c: "escape_char c = [92, 117] @ hex4 c" and d: "escape_char d = [92, 117] @ hex4 d"
    by (simp_all add: escape_char_def is_high_surrogate_def is_low_surrogate_def)
  from assms have p: "parse_unicode_escape (hex4 c @ [92, 117] @ hex4 d @ tail) =
         Some (65536 + (c - 55296) * 1024 + (d - 56320), tail)"
    by (intro parse_unicode_escape_pair) (simp_all add: is_high_surrogate_def is_low_surrogate_def)
  have "parse_chars (escape_char c @ escape_char d @ tail) =
          (case parse_unicode_escape (hex4 c @ [92, 117] @ hex4 d @ tail) of
             None \<Rightarrow> None
           | Some (u, rest) \<Rightarrow>
              (case parse_chars rest of None \<Rightarrow> None | Some (s, r) \<Rightarrow> Some (u # s, r)))"
    by (simp add: c d)
  then show ?thesis by (simp only: p option.case prod.case)
qed

lemma no_low_start_quote: "no_low_start (34 # r)"
  by (simp add: no_low_start_def)

lemma no_low_start_escape:
  assumes "\<not> is_low_surrogate d"
  shows "no_low_start (escape_char d @ tail)"
proof -
  consider (short) "d \<in> {34, 92, 10, 13, 9, 8, 12}"
    | (plain) "d \<notin> {34, 92, 10, 13, 9, 8, 12}" "32 \<le> d" "d \<le> 126"
    | (bmp) "d \<notin> {34, 92, 10, 13, 9, 8, 12}" "\<not> (32 \<le> d \<and> d \<le> 126)" "d < 65536"
    | (astral) "65536 \<le> d"
    by force
  then show ?thesis
  proof cases
    case short
    then have "take 2 (escape_char d @ tail) \<noteq> [92, 117]"
      by (elim insertE emptyE) (simp_all add: escape_char_short)
    then show ?thesis unfolding no_low_start_def by (rule disjI1)
  next
    case plain
    then have "take 2 (escape_char d @ tail) \<noteq> [92, 117]"
      by (simp add: escape_char_def)
    then show ?thesis unfolding no_low_start_def by (rule disjI1)
  next
    case bmp
    then have e: "escape_char d = [92, 117] @ hex4 d" by (simp add: escape_char_def)
    from bmp have "parse_hex4 (hex4 d @ tail) = Some (d, tail)" by (simp add: parse_hex4_hex4)
    with assms show ?thesis by (simp add: e no_low_start_def)
  next
    case astral
    define h where "h = 55296 + ((d - 65536) div 1024) mod 1024"
    define l where "l = 56320 + (d - 65536) mod 1024"
    from astral have e: "escape_char d = [92, 117] @ hex4 h @ [92, 117] @ hex4 l"
      by (simp add: escape_char_def h_def l_def)
    have "h < 65536" by (simp add: h_def)
    then have "parse_hex4 (hex4 h @ [92, 117] @ hex4 l @ tail) = Some (h, [92, 117] @ hex4 l @ tail)"
      by (rule parse_hex4_hex4)
    moreover have "\<not> is_low_surrogate h" by (simp add: h_def is_low_surrogate_def)
    ultimately show ?thesis by (simp add: e no_low_start_def)
  qed
qed

lemma parse_chars_escaped:
  "parse_chars (concat (map escape_char s) @ 34 # r) = Some (decoded s, r)"
proof (induction s rule: decoded.induct)
  case 1
  show ?case by simp
next
  case (2 c)
  have "parse_chars (escape_char c @ 34 # r) = Some ([norm_cp c], r)"
    by (subst parse_chars_step) (simp_all add: no_low_start_quote)
  then show ?case by simp
next
  case (3 c d s)
  let ?tail = "concat (map escape_char s) @ 34 # r"
  show ?case
  proof (cases "is_high_surrogate c \<and> is_low_surrogate d")
    case True
    then have "parse_chars (escape_char c @ escape_char d @ ?tail) =
        Some ((65536 + (c - 55296) * 1024 + (d - 56320)) # decoded s, r)"
      using 3(1) by (simp add: parse_chars_pair)
    with True show ?thesis by simp
  next
    case False
    then have "is_high_surrogate c \<longrightarrow> no_low_start (escape_char d @ ?tail)"
      by (auto intro: no_low_start_escape)
    then have "parse_chars (escape_char c @ escape_char d @ ?tail) =
        (case parse_chars (escape_char d @ ?tail) of
           None \<Rightarrow> None | Some (s, r) \<Rightarrow> Some (norm_cp c # s, r))"
      by (rule parse_chars_step)
    with False 3(2) have "parse_chars (escape_char c @ escape_char d @ ?tail) =
        Some (norm_cp c # decoded (d # s), r)" by simp
    moreover from False have "decoded (c # d # s) = norm_cp c # decoded (d # s)" by auto
    moreover have "concat (map escape_char (c # d # s)) @ 34 # r =
        escape_char c @ escape_char d @ ?tail" by simp
    ultimately show ?thesis by (simp only:)
  qed
qed

lemma set_transcript_response0: "set_transcript response0 t = Inr (response_with t)"
  by (simp add: set_transcript_def response0_def response_with_def ascii_def)

lemma response0_with: "response0 = response_with []"
  by (simp add: response0_def response_with_def)

lemma json_dumps_shape:
  "json_dumps (JObject [(k1, JObject [(k2, JArray [JObject [(k3, JString t)]])])]) =
   123 # 34 # concat (map escape_char k1) @ 34 # 58 # 32 #
   123 # 34 # concat (map escape_char k2) @ 34 # 58 # 32 #
   91 # 123 # 34 # concat (map escape_char k3) @ 34 # 58 # 32 #
   34 # concat (map escape_char t) @ 34 # 125 # 93 # 125 # [125]"
  by (simp add: encode_basestring_ascii_def ascii_def)

lemma skip_ws_nonws: "\<not> is_ws c \<Longrightarrow> skip_ws (c # cs) = c # cs"
  by simp

lemma parse_string_value:
  "parse_value (Suc n) (34 # concat (map escape_char s) @ 34 # r) = Some (JString (decoded s), r)"
  by (simp add: parse_chars_escaped)

lemma parse_member_last:
  assumes "parse_value n (c # cs) = Some (v, 125 # r)" and "\<not> is_ws c"
  shows "parse_members (Suc n) (34 # concat (map escape_char k) @ 34 # 58 # 32 # c # cs) =
         Some ([(decoded k, v)], r)"
  using assms by (simp add: parse_chars_escaped is_ws_def)

lemma parse_object:
  assumes "parse_members n (34 # m) = Some (kvs, r)"
  shows "parse_value (Suc n) (123 # 34 # m) = Some (JObject kvs, r)"
  using assms by (simp add: is_ws_def)

lemma parse_elements_last:
  assumes "parse_value n s = Some (v, 93 # r)"
  shows "parse_elements (Suc n) s = Some ([v], r)"
  using assms by (simp add: is_ws_def)

lemma parse_array:
  assumes "parse_elements n (123 # ds) = Some (vs, r)"
  shows "parse_value (Suc n) (91 # 123 # ds) = Some (JArray vs, r)"
  using assms by (simp add: is_ws_def)

lemma parse_value_shape:
  "parse_value (Suc (Suc (Suc (Suc (Suc (Suc (Suc (Suc (Suc n)))))))))
     (json_dumps (JObject [(k1, JObject [(k2, JArray [JObject [(k3, JString t)]])])])) =
   Some (JObject [(decoded k1, JObject [(decoded k2,
           JArray [JObject [(decoded k3, JString (decoded t))]])])], [])"
  unfolding json_dumps_shape
  apply (rule parse_object)
  apply (rule parse_member_last)
   apply (rule parse_object)
   apply (rule parse_member_last)
    apply (rule parse_array)
    apply (rule parse_elements_last)
    apply (rule parse_object)
    apply (rule parse_member_last)
     apply (rule parse_string_value)
    apply (simp_all add: is_ws_def)
  done

lemma length_json_dumps_shape:
  "\<exists>n. length (json_dumps (JObject [(k1, JObject [(k2, JArray [JObject [(k3, JString t)]])])])) =
     Suc (Suc (Suc (Suc (Suc (Suc (Suc (Suc (Suc n))))))))"
  unfolding json_dumps_shape by simp

lemma json_loads_shape:
  "json_loads (json_dumps (JObject [(k1, JObject [(k2, JArray [JObject [(k3, JString t)]])])])) =
   Some (JObject [(decoded k1, JObject [(decoded k2,
           JArray [JObject [(decoded k3, JString (decoded t))]])])])"
proof -
  let ?s = "json_dumps (JObject [(k1, JObject [(k2, JArray [JObject [(k3, JString t)]])])])"
  obtain n where n: "length ?s = Suc (Suc (Suc (Suc (Suc (Suc (Suc (Suc (Suc n))))))))"
    using length_json_dumps_shape by blast
  have "skip_ws ?s = ?s" unfolding json_dumps_shape by (simp add: is_ws_def)
  then show ?thesis
    by (simp only: json_loads_def n parse_value_shape option.case prod.case skip_ws.simps if_True simp_thms)
qed

lemma decoded_keys:
  "decoded (ascii ''channel'') = ascii ''channel''"
  "decoded (ascii ''alternatives'') = ascii ''alternatives''"
  "decoded (ascii ''transcript'') = ascii ''transcript''"
  by (simp_all add: ascii_def norm_cp_def is_high_surrogate_def)

lemma json_loads_response:
  "json_loads (json_dumps (response_with t)) = Some (response_with (decoded t))"
  unfolding response_with_def by (simp only: json_loads_shape decoded_keys)

section \<open>The claims\<close>

subsection \<open>Shared lemmas\<close>

lemma json_dumps_response0:
  \<open>json_dumps response0 = ascii ''{"channel": {"alternatives": [{"transcript": ""}]}}''\<close>
  by (simp add: response0_def encode_basestring_ascii_def escape_char_def ascii_def)

lemma state_simps:
  "MODEL (called c st) = MODEL st" "calls (called c st) = calls st @ [c]"
  "stdout (called c st) = stdout st" "print_error (called c st) = print_error st"
  by (simp_all add: called_def)

lemma print_and_return_fst:
  "fst (print_and_return p v st) = (case print_error st p of None \<Rightarrow> Inr v | Some e \<Rightarrow> Inl e)"
  by (simp add: print_and_return_def print_def split: option.splits)

lemma print_and_return_snd:
  "MODEL (snd (print_and_return p v st)) = MODEL st"
  "calls (snd (print_and_return p v st)) = calls st"
  "print_error (snd (print_and_return p v st)) = print_error st"
  "stdout (snd (print_and_return p v st)) =
     (case print_error st p of None \<Rightarrow> stdout st @ [p] | Some e \<Rightarrow> stdout st)"
  by (simp_all add: print_and_return_def print_def split: option.splits)

lemma ws_transcribe_try_snd:
  "stdout (snd (ws_transcribe_try db lib st audio response)) = stdout st"
  "print_error (snd (ws_transcribe_try db lib st audio response)) = print_error st"
  by (simp_all add: ws_transcribe_try_def state_simps split: sum.splits)

lemma ws_transcribe_raw_try_snd:
  "stdout (snd (ws_transcribe_raw_try db lib st audio response)) = stdout st"
  "print_error (snd (ws_transcribe_raw_try db lib st audio response)) = print_error st"
  by (simp_all add: ws_transcribe_raw_try_def Let_def state_simps
      split: sum.splits option.splits)

lemma ws_finish_fst:
  "fst (ws_finish response outcome) =
     (case fst outcome of
        Inr response' \<Rightarrow> Inr (json_dumps response')
      | Inl e \<Rightarrow>
          if is_Exception e
          then (case print_error (snd outcome) (PrintException e) of
                  None \<Rightarrow> Inr (json_dumps response) | Some e' \<Rightarrow> Inl e')
          else Inl e)"
  by (cases outcome) (simp add: ws_finish_def print_and_return_fst split: sum.splits)

lemma ws_finish_stdout:
  "stdout (snd (ws_finish response outcome)) =
     (case fst outcome of
        Inr response' \<Rightarrow> stdout (snd outcome)
      | Inl e \<Rightarrow>
          if is_Exception e
          then (case print_error (snd outcome) (PrintException e) of
                  None \<Rightarrow> stdout (snd outcome) @ [PrintException e]
                | Some e' \<Rightarrow> stdout (snd outcome))
          else stdout (snd outcome))"
  by (cases outcome)
     (simp add: ws_finish_def print_and_return_snd split: sum.splits option.splits)

lemma ws_transcribe_fst:
  "fst (ws_transcribe db lib st audio) =
     (case fst (ws_transcribe_try db lib st audio response0) of
        Inr response' \<Rightarrow> Inr (json_dumps response')
      | Inl e \<Rightarrow>
          if is_Exception e
          then (case print_error st (PrintException e) of
                  None \<Rightarrow> Inr (json_dumps response0) | Some e' \<Rightarrow> Inl e')
          else Inl e)"
  by (simp add: ws_transcribe_def ws_finish_fst ws_transcribe_try_snd
      split: sum.splits option.splits)

lemma ws_transcribe_raw_fst:
  "fst (ws_transcribe_raw db lib st audio) =
     (case fst (ws_transcribe_raw_try db lib st audio response0) of
        Inr response' \<Rightarrow> Inr (json_dumps response')
      | Inl e \<Rightarrow>
          if is_Exception e
          then (case print_error st (PrintException e) of
                  None \<Rightarrow> Inr (json_dumps response0) | Some e' \<Rightarrow> Inl e')
          else Inl e)"
  by (simp add: ws_transcribe_raw_def ws_finish_fst ws_transcribe_raw_try_snd
      split: sum.splits option.splits)

lemma ws_transcribe_stdout:
  "stdout (snd (ws_transcribe db lib st audio)) =
     (case fst (ws_transcribe_try db lib st audio response0) of
        Inr response' \<Rightarrow> stdout st
      | Inl e \<Rightarrow>
          if is_Exception e
          then (case print_error st (PrintException e) of
                  None \<Rightarrow> stdout st @ [PrintException e] | Some e' \<Rightarrow> stdout st)
          else stdout st)"
  by (simp add: ws_transcribe_def ws_finish_stdout ws_transcribe_try_snd
      split: sum.splits option.splits)

lemma ws_transcribe_raw_stdout:
  "stdout (snd (ws_transcribe_raw db lib st audio)) =
     (case fst (ws_transcribe_raw_try db lib st audio response0) of
        Inr response' \<Rightarrow> stdout st
      | Inl e \<Rightarrow>
          if is_Exception e
          then (case print_error st (PrintException e) of
                  None \<Rightarrow> stdout st @ [PrintException e] | Some e' \<Rightarrow> stdout st)
          else stdout st)"
  by (simp add: ws_transcribe_raw_def ws_finish_stdout ws_transcribe_raw_try_snd
      split: sum.splits option.splits)

lemma ws_transcribe_try_raises:
  "whisper_transcribe lib (MODEL st) audio False = Inl e \<Longrightarrow>
   fst (ws_transcribe_try db lib st audio response) = Inl e"
  by (simp add: ws_transcribe_try_def)

lemma ws_transcribe_caught:
  assumes "is_Exception e" and "print_error st (PrintException e) = None"
    and "fst (ws_transcribe_try db lib st audio response0) = Inl e"
  shows "fst (ws_transcribe db lib st audio) = Inr (json_dumps response0)"
    and "stdout (snd (ws_transcribe db lib st audio)) = stdout st @ [PrintException e]"
  using assms by (simp_all add: ws_transcribe_fst ws_transcribe_stdout)

lemma ws_transcribe_raw_caught:
  assumes "is_Exception e" and "print_error st (PrintException e) = None"
    and "fst (ws_transcribe_raw_try db lib st audio response0) = Inl e"
  shows "fst (ws_transcribe_raw db lib st audio) = Inr (json_dumps response0)"
    and "stdout (snd (ws_transcribe_raw db lib st audio)) = stdout st @ [PrintException e]"
  using assms by (simp_all add: ws_transcribe_raw_fst ws_transcribe_raw_stdout)

lemma raw_try_pad_or_trim:
  "whisper_pad_or_trim lib audio = Inl e \<Longrightarrow>
   fst (ws_transcribe_raw_try db lib st audio response) = Inl e"
  by (simp add: ws_transcribe_raw_try_def)

lemma raw_try_log_mel:
  "whisper_pad_or_trim lib audio = Inr a \<Longrightarrow> whisper_log_mel_spectrogram lib a = Inl e \<Longrightarrow>
   fst (ws_transcribe_raw_try db lib st audio response) = Inl e"
  by (simp add: ws_transcribe_raw_try_def)

lemma raw_try_decode:
  "whisper_pad_or_trim lib audio = Inr a \<Longrightarrow> whisper_log_mel_spectrogram lib a = Inr mel0 \<Longrightarrow>
   MODEL st = Some m \<Longrightarrow> tensor_to lib mel0 m = Inr mel \<Longrightarrow>
   whisper_DecodingOptions lib False = Inr options \<Longrightarrow>
   whisper_decode lib m mel options = Inl e \<Longrightarrow>
   fst (ws_transcribe_raw_try db lib st audio response) = Inl e"
  by (simp add: ws_transcribe_raw_try_def)

lemma stub_simps:
  "whisper_load_model (stub_whisper l i) p b = l"
  "whisper_transcribe (stub_whisper l i) mo au f = i mo"
  "whisper_pad_or_trim (stub_whisper l i) au = Inr au"
  "whisper_log_mel_spectrogram (stub_whisper l i) au = Inr au"
  "tensor_to (stub_whisper l i) t h = Inr t"
  "whisper_DecodingOptions (stub_whisper l i) f = Inr 0"
  "whisper_decode (stub_whisper l i) h t opts = i (Some h)"
  by (simp_all add: stub_whisper_def)

lemma fill_response_response0:
  "fill_response db response0 result =
     (case py_getitem result (ascii ''text'') of
        Inl e \<Rightarrow> Inl e
      | Inr (PyStr s) \<Rightarrow> Inr (response_with (clean_text db s))
      | Inr v \<Rightarrow> Inl AttributeError)"
  by (auto simp: fill_response_def set_transcript_response0 split: sum.splits pyval.splits)

lemma py_getitem_raises: "py_getitem result key = Inl e \<Longrightarrow> is_Exception e"
  by (cases result) (auto split: option.splits)

lemma fill_response_raises: "fill_response db response0 result = Inl e \<Longrightarrow> is_Exception e"
  by (auto simp: fill_response_response0 split: sum.splits pyval.splits dest: py_getitem_raises)

lemma fill_response_returns:
  "fill_response db response0 result = Inr response \<Longrightarrow> \<exists>t. response = response_with t"
  by (auto simp: fill_response_response0 split: sum.splits pyval.splits)

lemma fill_response_text:
  "py_getitem result (ascii ''text'') = Inr (PyStr t) \<Longrightarrow>
   fill_response db response0 result = Inr (response_with (clean_text db t))"
  by (simp add: fill_response_response0)

lemma ws_transcribe_try_fst:
  "fst (ws_transcribe_try db lib st audio response) =
     (case whisper_transcribe lib (MODEL st) audio False of
        Inl e \<Rightarrow> Inl e
      | Inr result \<Rightarrow> fill_response db response result)"
  by (simp add: ws_transcribe_try_def split: sum.splits)

lemma ws_transcribe_text:
  assumes "whisper_transcribe lib (MODEL st) audio False = Inr result"
    and "py_getitem result (ascii ''text'') = Inr (PyStr t)"
  shows "fst (ws_transcribe db lib st audio) = Inr (json_dumps (response_with (clean_text db t)))"
  using assms by (simp add: ws_transcribe_fst ws_transcribe_try_fst fill_response_text)

lemma btfm_transcribe_unset:
  "MODEL st = None \<Longrightarrow>
   btfm_transcribe lib st audio fp16 = print_and_return programmer_error (PyStr []) st"
  by (simp add: btfm_transcribe_def)

lemma btfm_transcribe_caught:
  assumes "MODEL st = Some m" and "whisper_transcribe lib (Some m) audio fp16 = Inl e"
    and "is_Exception e"
  shows "btfm_transcribe lib st audio fp16 =
           print_and_return (PrintException e) (PyStr []) (called CallTranscribe st)"
  using assms by (simp add: btfm_transcribe_def btfm_transcribe_try_def)

lemma btfm_transcribe_text:
  assumes "MODEL st = Some m" and "whisper_transcribe lib (Some m) audio fp16 = Inr result"
    and "py_getitem result (ascii ''text'') = Inr v"
  shows "btfm_transcribe lib st audio fp16 = (Inr v, called CallTranscribe st)"
  using assms by (simp add: btfm_transcribe_def btfm_transcribe_try_def)

lemma clean_text_hi: "clean_text db (ascii ''hi'') = ascii ''hi''"
  by (simp add: clean_text_def ascii_def py_lower_def is_ascii_def ascii_lower_def
      ALPHANUMERIC_REGEX_def re_word_def re_space_def py_isalnum_def py_isspace_def
      strip_def rstrip_def)

lemma clean_text_bang: "clean_text db (ascii ''!'') = []"
  by (simp add: clean_text_def ascii_def py_lower_def is_ascii_def ascii_lower_def
      ALPHANUMERIC_REGEX_def re_word_def re_space_def py_isalnum_def py_isspace_def
      strip_def rstrip_def)

lemma json_dumps_hi:
  \<open>json_dumps (response_with (ascii ''hi'')) =
     ascii ''{"channel": {"alternatives": [{"transcript": "hi"}]}}''\<close>
  by (simp add: response_with_def encode_basestring_ascii_def escape_char_def ascii_def)

lemma ws_transcribe_try_returns:
  "fst (ws_transcribe_try db lib st audio response0) = Inr response \<Longrightarrow>
   \<exists>t. response = response_with t"
  by (auto simp: ws_transcribe_try_fst split: sum.splits dest: fill_response_returns)

lemma ws_transcribe_raw_try_returns:
  "fst (ws_transcribe_raw_try db lib st audio response0) = Inr response \<Longrightarrow>
   \<exists>t. response = response_with t"
  by (auto simp: ws_transcribe_raw_try_def Let_def split: sum.splits option.splits
      dest: fill_response_returns)

lemma ws_transcribe_try_propagated:
  "fst (ws_transcribe_try db lib st audio response0) = Inl e \<Longrightarrow> \<not> is_Exception e \<Longrightarrow>
   whisper_transcribe lib (MODEL st) audio False = Inl e"
  by (auto simp: ws_transcribe_try_fst split: sum.splits dest: fill_response_raises)

lemma json_loads_response_ex:
  "\<exists>t. json_loads (json_dumps (response_with u)) =
     Some (JObject [(ascii ''channel'',
       JObject [(ascii ''alternatives'', JArray [JObject [(ascii ''transcript'', JString t)]])])])"
  using json_loads_response[of u] by (auto simp: response_with_def)

lemma decoded_hi: "decoded (ascii ''hi'') = ascii ''hi''"
  by (simp add: ascii_def norm_cp_def is_high_surrogate_def)

lemma clean_text_hello:
  "clean_text db (ascii ''Hello, World! 123'') = ascii ''hello world 123''"
  by (simp add: clean_text_def ascii_def py_lower_def is_ascii_def ascii_lower_def
      ALPHANUMERIC_REGEX_def re_word_def re_space_def py_isalnum_def py_isspace_def
      strip_def rstrip_def)

lemma clean_text_decomp:
  "\<exists>l r. filter (\<lambda>c. re_word db c \<or> re_space db c) (py_lower db s) = l @ clean_text db s @ r \<and>
     list_all (py_isspace db) l \<and> list_all (py_isspace db) r"
  unfolding clean_text_filter by (rule strip_decomp)

lemma clean_text_ends:
  "clean_text db s \<noteq> [] \<Longrightarrow>
   \<not> py_isspace db (hd (clean_text db s)) \<and> \<not> py_isspace db (last (clean_text db s))"
  unfolding clean_text_filter using strip_ends by blast

lemma clean_text_ascii_no_upper:
  assumes "is_ascii s"
  shows "list_all (\<lambda>c. \<not> (65 \<le> c \<and> c \<le> 90)) (clean_text db s)"
proof -
  from assms have "py_lower db s = map ascii_lower s" by (simp add: py_lower_def)
  with subseq_clean_text[of db s] have "subseq (clean_text db s) (map ascii_lower s)" by simp
  then have "set (clean_text db s) \<subseteq> set (map ascii_lower s)" by (rule subseq_set_subset)
  then have "\<forall>c\<in>set (clean_text db s). \<exists>d. c = ascii_lower d" by auto
  then show ?thesis by (auto simp: list_all_iff ascii_lower_def split: if_splits)
qed

lemma clean_text_cafe:
  "clean_text sample_db [160, 32, 67, 65, 70, 201, 33, 32] = [99, 97, 102, 233]"
  by (simp add: clean_text_def py_lower_def is_ascii_def ascii_lower_def
      ALPHANUMERIC_REGEX_def re_word_def re_space_def py_isalnum_def py_isspace_def
      strip_def rstrip_def sample_db_def sample_lower_def)

lemma strip_empty_iff: "strip db s = [] \<longleftrightarrow> list_all (py_isspace db) s"
proof
  assume e: "strip db s = []"
  obtain l r where "s = l @ strip db s @ r" "list_all (py_isspace db) l" "list_all (py_isspace db) r"
    using strip_decomp by blast
  with e have "s = l @ r" by simp
  with \<open>list_all (py_isspace db) l\<close> \<open>list_all (py_isspace db) r\<close> show "list_all (py_isspace db) s"
    by simp
next
  assume "list_all (py_isspace db) s"
  then show "strip db s = []"
    unfolding strip_eq by (auto simp: list_all_iff dest: set_dropWhileD)
qed

lemma clean_text_nonempty_iff:
  "clean_text db t \<noteq> [] \<longleftrightarrow> list_ex (\<lambda>c. re_word db c \<and> \<not> re_space db c) (py_lower db t)"
  by (auto simp: clean_text_filter strip_empty_iff list_all_iff list_ex_iff re_space_def)

lemma btfm_load_model_loaded:
  "btfm_load_model lib st0 path = (Inr (), st) \<Longrightarrow> \<exists>m. MODEL st = Some m"
  by (auto simp: btfm_load_model_def split: sum.splits)

lemma json_dumps_empty:
  \<open>json_dumps (response_with []) =
     ascii ''{"channel": {"alternatives": [{"transcript": ""}]}}''\<close>
  by (simp only: response0_with[symmetric] json_dumps_response0)

lemma ws_finish_MODEL: "MODEL (snd (ws_finish response outcome)) = MODEL (snd outcome)"
  by (cases outcome) (simp add: ws_finish_def print_and_return_snd split: sum.splits)

lemma ws_transcribe_try_MODEL:
  "MODEL (snd (ws_transcribe_try db lib st audio response)) = MODEL st"
  by (simp add: ws_transcribe_try_def state_simps split: sum.splits)

lemma ws_transcribe_raw_try_MODEL:
  "MODEL (snd (ws_transcribe_raw_try db lib st audio response)) = MODEL st"
  by (simp add: ws_transcribe_raw_try_def Let_def state_simps split: sum.splits option.splits)

lemma btfm_transcribe_MODEL: "MODEL (snd (btfm_transcribe lib st audio fp16)) = MODEL st"
  by (simp add: btfm_transcribe_def Let_def state_simps print_and_return_snd
      split: sum.splits option.splits)

subsection \<open>C1: an exception during inference gives the empty transcript (module 2)\<close>

text \<open>
  Claim C1 says that in module 2 an exception of the inference call always ends in the
  serialised object \<^verbatim>\<open>{"channel": {"alternatives": [{"transcript": ""}]}}\<close> and never leaves
  \<^verbatim>\<open>transcribe\<close> or \<^verbatim>\<open>transcribe_raw\<close>. The handler prints the exception first (lines 39 and
  60), and nothing guards that \<^verbatim>\<open>print\<close>: on a standard output where it raises
  \<^verbatim>\<open>UnicodeEncodeError\<close>, that exception leaves the function and nothing is returned.
\<close>

theorem ws_inference_exception_counterexample:
  \<open>is_Exception (LibraryError 7) \<and>
   whisper_transcribe (stub_whisper (Inr 3) (fails (LibraryError 7)))
     (MODEL (broken_stdout UnicodeEncodeError (state0\<lparr>MODEL := Some 3\<rparr>))) 0 False =
     Inl (LibraryError 7) \<and>
   fst (ws_transcribe sample_db (stub_whisper (Inr 3) (fails (LibraryError 7)))
     (broken_stdout UnicodeEncodeError (state0\<lparr>MODEL := Some 3\<rparr>)) 0) = Inl UnicodeEncodeError \<and>
   whisper_pad_or_trim (stub_whisper (Inr 3) (fails (LibraryError 7))) 0 = Inr 0 \<and>
   whisper_log_mel_spectrogram (stub_whisper (Inr 3) (fails (LibraryError 7))) 0 = Inr 0 \<and>
   tensor_to (stub_whisper (Inr 3) (fails (LibraryError 7))) 0 3 = Inr 0 \<and>
   whisper_DecodingOptions (stub_whisper (Inr 3) (fails (LibraryError 7))) False = Inr 0 \<and>
   whisper_decode (stub_whisper (Inr 3) (fails (LibraryError 7))) 3 0 0 = Inl (LibraryError 7) \<and>
   fst (ws_transcribe_raw sample_db (stub_whisper (Inr 3) (fails (LibraryError 7)))
     (broken_stdout UnicodeEncodeError (state0\<lparr>MODEL := Some 3\<rparr>)) 0) = Inl UnicodeEncodeError\<close>
  by (simp add: ws_transcribe_fst ws_transcribe_try_fst ws_transcribe_raw_fst
      ws_transcribe_raw_try_def Let_def stub_simps fails_def state0_def broken_stdout_def
      called_def)

text \<open>
  Claim C1, amended. In module 2, when the inference call raises an exception (an instance
  of \<^verbatim>\<open>Exception\<close>, the class the handlers name) and printing that exception succeeds,
  \<^verbatim>\<open>transcribe\<close> and \<^verbatim>\<open>transcribe_raw\<close> return the serialised object
  \<^verbatim>\<open>{"channel": {"alternatives": [{"transcript": ""}]}}\<close> and do not propagate the exception.
  The call is \<^verbatim>\<open>whisper.transcribe\<close> in \<^verbatim>\<open>transcribe\<close>, and \<^verbatim>\<open>pad_or_trim\<close>,
  \<^verbatim>\<open>log_mel_spectrogram\<close> or \<^verbatim>\<open>decode\<close> in \<^verbatim>\<open>transcribe_raw\<close>; the last two conjuncts say
  the same of an exception raised anywhere inside either \<^verbatim>\<open>try\<close> block.
\<close>

theorem ws_inference_exception_empty_transcript:
  assumes \<open>is_Exception e\<close> and \<open>print_error st (PrintException e) = None\<close>
  shows \<open>(whisper_transcribe lib (MODEL st) audio False = Inl e \<longrightarrow>
            fst (ws_transcribe db lib st audio) =
              Inr (ascii ''{"channel": {"alternatives": [{"transcript": ""}]}}'')) \<and>
         (whisper_pad_or_trim lib audio = Inl e \<longrightarrow>
            fst (ws_transcribe_raw db lib st audio) =
              Inr (ascii ''{"channel": {"alternatives": [{"transcript": ""}]}}'')) \<and>
         (whisper_pad_or_trim lib audio = Inr a \<and> whisper_log_mel_spectrogram lib a = Inl e \<longrightarrow>
            fst (ws_transcribe_raw db lib st audio) =
              Inr (ascii ''{"channel": {"alternatives": [{"transcript": ""}]}}'')) \<and>
         (whisper_pad_or_trim lib audio = Inr a \<and> whisper_log_mel_spectrogram lib a = Inr mel0 \<and>
          MODEL st = Some m \<and> tensor_to lib mel0 m = Inr mel \<and>
          whisper_DecodingOptions lib False = Inr options \<and>
          whisper_decode lib m mel options = Inl e \<longrightarrow>
            fst (ws_transcribe_raw db lib st audio) =
              Inr (ascii ''{"channel": {"alternatives": [{"transcript": ""}]}}'')) \<and>
         (fst (ws_transcribe_try db lib st audio response0) = Inl e \<longrightarrow>
            fst (ws_transcribe db lib st audio) =
              Inr (ascii ''{"channel": {"alternatives": [{"transcript": ""}]}}'')) \<and>
         (fst (ws_transcribe_raw_try db lib st audio response0) = Inl e \<longrightarrow>
            fst (ws_transcribe_raw db lib st audio) =
              Inr (ascii ''{"channel": {"alternatives": [{"transcript": ""}]}}''))\<close>
  using assms
  by (simp only: json_dumps_response0[symmetric])
     (blast intro: ws_transcribe_caught(1) ws_transcribe_raw_caught(1) ws_transcribe_try_raises
        raw_try_pad_or_trim raw_try_log_mel raw_try_decode)

text \<open>At a stub whose inference raises \<open>LibraryError 7\<close>, with a model loaded and a
  standard output that takes every \<^verbatim>\<open>print\<close>.\<close>

theorem ws_inference_exception_empty_transcript_witness:
  \<open>is_Exception (LibraryError 7) \<and>
   print_error (state0\<lparr>MODEL := Some 3\<rparr>) (PrintException (LibraryError 7)) = None \<and>
   whisper_transcribe (stub_whisper (Inr 3) (fails (LibraryError 7))) (MODEL (state0\<lparr>MODEL := Some 3\<rparr>)) 0 False
     = Inl (LibraryError 7) \<and>
   fst (ws_transcribe sample_db (stub_whisper (Inr 3) (fails (LibraryError 7))) (state0\<lparr>MODEL := Some 3\<rparr>) 0) =
     Inr (ascii ''{"channel": {"alternatives": [{"transcript": ""}]}}'') \<and>
   whisper_decode (stub_whisper (Inr 3) (fails (LibraryError 7))) 3 0 0 = Inl (LibraryError 7) \<and>
   fst (ws_transcribe_raw sample_db (stub_whisper (Inr 3) (fails (LibraryError 7))) (state0\<lparr>MODEL := Some 3\<rparr>) 0) =
     Inr (ascii ''{"channel": {"alternatives": [{"transcript": ""}]}}'')\<close>
  using ws_inference_exception_empty_transcript
    [where e = "LibraryError 7" and lib = "stub_whisper (Inr 3) (fails (LibraryError 7))"
        and st = "state0\<lparr>MODEL := Some 3\<rparr>" and audio = 0 and db = sample_db
        and a = 0 and ?mel0.0 = 0 and m = 3 and mel = 0 and options = 0]
  by (simp add: stub_simps fails_def state0_def)

subsection \<open>C2: transcribe with the model unset\<close>

text \<open>
  Claim C2 says that with \<^verbatim>\<open>MODEL\<close> unset both modules return their empty result without
  raising. It fails in two places.
  \<^item> Module 1 prints its diagnostic at line 27, outside any \<^verbatim>\<open>try\<close>: on a closed standard
    output that \<^verbatim>\<open>print\<close> raises \<^verbatim>\<open>ValueError\<close>, and \<^verbatim>\<open>transcribe\<close> raises with it.
  \<^item> Module 2 does not test \<^verbatim>\<open>MODEL\<close>: it hands \<^verbatim>\<open>None\<close> to \<^verbatim>\<open>whisper.transcribe\<close>, and what it
    returns is up to that call. With an inference stub that answers \<^verbatim>\<open>hi\<close> whatever the
    model, module 2's \<^verbatim>\<open>transcribe\<close> returns the transcript \<^verbatim>\<open>hi\<close> although \<^verbatim>\<open>MODEL\<close> is unset.
\<close>

theorem ws_transcribe_unset_model_counterexample:
  \<open>MODEL (broken_stdout ValueError state0) = None \<and>
   fst (btfm_transcribe (stub_whisper (Inr 3) (says_if_loaded (ascii ''hi'')))
     (broken_stdout ValueError state0) 0 False) = Inl ValueError \<and>
   MODEL state0 = None \<and>
   fst (ws_transcribe sample_db (stub_whisper (Inr 3) (says (ascii ''hi''))) state0 0) =
     Inr (ascii ''{"channel": {"alternatives": [{"transcript": "hi"}]}}'') \<and>
   fst (ws_transcribe sample_db (stub_whisper (Inr 3) (says (ascii ''hi''))) state0 0) \<noteq>
     Inr (ascii ''{"channel": {"alternatives": [{"transcript": ""}]}}'')\<close>
proof -
  have "fst (ws_transcribe sample_db (stub_whisper (Inr 3) (says (ascii ''hi''))) state0 0) =
        Inr (json_dumps (response_with (clean_text sample_db (ascii ''hi''))))"
    by (rule ws_transcribe_text[where result = "PyDict [(ascii ''text'', PyStr (ascii ''hi''))]"])
       (simp_all add: stub_simps says_def)
  moreover have "MODEL (broken_stdout ValueError state0) = None"
    by (simp add: broken_stdout_def state0_def)
  moreover have "fst (btfm_transcribe (stub_whisper (Inr 3) (says_if_loaded (ascii ''hi'')))
     (broken_stdout ValueError state0) 0 False) = Inl ValueError"
    by (simp add: btfm_transcribe_unset print_and_return_fst broken_stdout_def state0_def)
  ultimately show ?thesis
    by (simp add: clean_text_hi json_dumps_hi) (simp add: state0_def ascii_def)
qed

text \<open>
  Claim C2, amended. For every audio input, with \<^verbatim>\<open>MODEL\<close> unset:
  \<^item> module 1's \<^verbatim>\<open>transcribe\<close> makes no call into the library and prints its diagnostic;
    when that \<^verbatim>\<open>print\<close> succeeds, the diagnostic is logged and the empty string is
    returned, with nothing raised;
  \<^item> module 2's \<^verbatim>\<open>transcribe\<close> calls \<^verbatim>\<open>whisper.transcribe\<close> with \<^verbatim>\<open>None\<close> for the model; when
    that call raises an exception (as the library does) and printing it succeeds, the
    exception is logged and the empty-transcript response is returned, with nothing
    raised.
\<close>

theorem transcribe_unset_model:
  assumes \<open>MODEL st = None\<close>
  shows \<open>calls (snd (btfm_transcribe lib st audio fp16)) = calls st \<and>
         (print_error st programmer_error = None \<longrightarrow>
            fst (btfm_transcribe lib st audio fp16) = Inr (PyStr []) \<and>
            stdout (snd (btfm_transcribe lib st audio fp16)) = stdout st @ [programmer_error]) \<and>
         (is_Exception e \<and> whisper_transcribe lib None audio False = Inl e \<and>
          print_error st (PrintException e) = None \<longrightarrow>
            fst (ws_transcribe db lib st audio) =
              Inr (ascii ''{"channel": {"alternatives": [{"transcript": ""}]}}'') \<and>
            stdout (snd (ws_transcribe db lib st audio)) = stdout st @ [PrintException e])\<close>
proof -
  have 1: "calls (snd (btfm_transcribe lib st audio fp16)) = calls st"
    using assms by (simp add: btfm_transcribe_unset print_and_return_snd)
  have 2: "fst (btfm_transcribe lib st audio fp16) = Inr (PyStr []) \<and>
      stdout (snd (btfm_transcribe lib st audio fp16)) = stdout st @ [programmer_error]"
    if "print_error st programmer_error = None"
    using that assms by (simp add: btfm_transcribe_unset print_and_return_fst print_and_return_snd)
  have 3: "fst (ws_transcribe db lib st audio) = Inr (json_dumps response0) \<and>
      stdout (snd (ws_transcribe db lib st audio)) = stdout st @ [PrintException e]"
    if "is_Exception e" and "whisper_transcribe lib None audio False = Inl e"
      and "print_error st (PrintException e) = None"
    using that assms by (simp add: ws_transcribe_fst ws_transcribe_stdout ws_transcribe_try_fst)
  from 1 2 3 show ?thesis by (simp only: json_dumps_response0[symmetric]) blast
qed

text \<open>At a stub that raises \<^verbatim>\<open>AttributeError\<close> on \<^verbatim>\<open>None\<close>, in the initial state.\<close>

theorem transcribe_unset_model_witness:
  \<open>MODEL state0 = None \<and>
   print_error state0 programmer_error = None \<and>
   fst (btfm_transcribe (stub_whisper (Inr 3) (says_if_loaded (ascii ''hi''))) state0 0 False) =
     Inr (PyStr []) \<and>
   stdout (snd (btfm_transcribe (stub_whisper (Inr 3) (says_if_loaded (ascii ''hi''))) state0 0 False)) =
     [programmer_error] \<and>
   calls (snd (btfm_transcribe (stub_whisper (Inr 3) (says_if_loaded (ascii ''hi''))) state0 0 False)) = [] \<and>
   is_Exception AttributeError \<and>
   whisper_transcribe (stub_whisper (Inr 3) (says_if_loaded (ascii ''hi''))) None 0 False =
     Inl AttributeError \<and>
   print_error state0 (PrintException AttributeError) = None \<and>
   fst (ws_transcribe sample_db (stub_whisper (Inr 3) (says_if_loaded (ascii ''hi''))) state0 0) =
     Inr (ascii ''{"channel": {"alternatives": [{"transcript": ""}]}}'') \<and>
   stdout (snd (ws_transcribe sample_db (stub_whisper (Inr 3) (says_if_loaded (ascii ''hi''))) state0 0)) =
     [PrintException AttributeError]\<close>
  using transcribe_unset_model
    [where st = state0 and lib = "stub_whisper (Inr 3) (says_if_loaded (ascii ''hi''))"
       and audio = 0 and ?fp16.0 = False and e = AttributeError and db = sample_db]
  by (simp add: stub_simps says_if_loaded_def state0_def)

subsection \<open>C3: an exception during inference gives the empty string (module 1)\<close>

text \<open>
  Claim C3 says that in module 1 an exception of \<^verbatim>\<open>whisper.transcribe\<close> always ends in the
  empty string and never leaves \<^verbatim>\<open>transcribe\<close>. The handler prints the exception (line 33),
  and nothing guards that \<^verbatim>\<open>print\<close>: on a standard output where it raises
  \<^verbatim>\<open>UnicodeEncodeError\<close>, that exception leaves \<^verbatim>\<open>transcribe\<close> and nothing is returned.
\<close>

theorem btfm_inference_exception_counterexample:
  "MODEL (broken_stdout UnicodeEncodeError (state0\<lparr>MODEL := Some 3\<rparr>)) = Some 3 \<and>
   whisper_transcribe (stub_whisper (Inr 3) (fails (LibraryError 7))) (Some 3) 0 False =
     Inl (LibraryError 7) \<and>
   is_Exception (LibraryError 7) \<and>
   fst (btfm_transcribe (stub_whisper (Inr 3) (fails (LibraryError 7)))
     (broken_stdout UnicodeEncodeError (state0\<lparr>MODEL := Some 3\<rparr>)) 0 False) = Inl UnicodeEncodeError"
  by (simp add: btfm_transcribe_caught[where m = 3 and e = "LibraryError 7"]
      print_and_return_fst state_simps stub_simps fails_def state0_def broken_stdout_def)

text \<open>
  Claim C3, amended. In module 1 with \<^verbatim>\<open>MODEL\<close> set, when \<^verbatim>\<open>whisper.transcribe\<close> raises an
  exception (an instance of \<^verbatim>\<open>Exception\<close>) and printing that exception succeeds,
  \<^verbatim>\<open>transcribe\<close> logs it, returns the empty string and does not propagate it. In any case
  there is no retry: the trace of library calls grows by exactly one inference call, and
  \<^verbatim>\<open>MODEL\<close> stays as it was.
\<close>

theorem btfm_inference_exception_empty_string:
  assumes "MODEL st = Some m" and "whisper_transcribe lib (Some m) audio fp16 = Inl e"
    and "is_Exception e"
  shows "(print_error st (PrintException e) = None \<longrightarrow>
           fst (btfm_transcribe lib st audio fp16) = Inr (PyStr []) \<and>
           stdout (snd (btfm_transcribe lib st audio fp16)) = stdout st @ [PrintException e]) \<and>
         calls (snd (btfm_transcribe lib st audio fp16)) = calls st @ [CallTranscribe] \<and>
         MODEL (snd (btfm_transcribe lib st audio fp16)) = MODEL st"
  using assms
  by (simp add: btfm_transcribe_caught print_and_return_fst print_and_return_snd state_simps)

text \<open>At a stub whose inference raises \<open>LibraryError 7\<close>, with a model loaded,
  \<^verbatim>\<open>fp16=True\<close> and a standard output that takes every \<^verbatim>\<open>print\<close>.\<close>

theorem btfm_inference_exception_empty_string_witness:
  "MODEL (state0\<lparr>MODEL := Some 3\<rparr>) = Some 3 \<and>
   whisper_transcribe (stub_whisper (Inr 3) (fails (LibraryError 7))) (Some 3) 0 True =
     Inl (LibraryError 7) \<and>
   is_Exception (LibraryError 7) \<and>
   print_error (state0\<lparr>MODEL := Some 3\<rparr>) (PrintException (LibraryError 7)) = None \<and>
   fst (btfm_transcribe (stub_whisper (Inr 3) (fails (LibraryError 7)))
     (state0\<lparr>MODEL := Some 3\<rparr>) 0 True) = Inr (PyStr []) \<and>
   calls (snd (btfm_transcribe (stub_whisper (Inr 3) (fails (LibraryError 7)))
     (state0\<lparr>MODEL := Some 3\<rparr>) 0 True)) = [CallTranscribe] \<and>
   stdout (snd (btfm_transcribe (stub_whisper (Inr 3) (fails (LibraryError 7)))
     (state0\<lparr>MODEL := Some 3\<rparr>) 0 True)) = [PrintException (LibraryError 7)]"
  using btfm_inference_exception_empty_string
    [where st = "state0\<lparr>MODEL := Some 3\<rparr>" and m = 3
       and lib = "stub_whisper (Inr 3) (fails (LibraryError 7))" and audio = 0
       and ?fp16.0 = True and e = "LibraryError 7"]
  by (simp add: stub_simps fails_def state0_def)

subsection \<open>C4: the output of module 2 is JSON of one fixed shape\<close>

text \<open>
  Claim C4. For every audio input and whatever the library does, what \<^verbatim>\<open>transcribe\<close> and
  \<^verbatim>\<open>transcribe_raw\<close> of module 2 return is JSON text, and it reads back as an object with
  the one key \<^verbatim>\<open>channel\<close>, whose value is an object with the one key \<^verbatim>\<open>alternatives\<close>, whose
  value is a list of one object with the one key \<^verbatim>\<open>transcript\<close>, whose value is a string.
  The only other outcome is that nothing is returned: then the library raised
  \<^verbatim>\<open>KeyboardInterrupt\<close> or \<^verbatim>\<open>SystemExit\<close>, which no handler of the module catches, or the
  handler's \<^verbatim>\<open>print\<close> of a caught exception raised.
\<close>

theorem ws_output_is_json_of_fixed_shape:
  "(case fst (ws_transcribe db lib st audio) of
      Inr out \<Rightarrow>
        \<exists>t. json_loads out = Some (JObject [(ascii ''channel'',
          JObject [(ascii ''alternatives'', JArray [JObject [(ascii ''transcript'', JString t)]])])])
    | Inl e \<Rightarrow>
        (\<not> is_Exception e \<and> whisper_transcribe lib (MODEL st) audio False = Inl e) \<or>
        (\<exists>e0. is_Exception e0 \<and> fst (ws_transcribe_try db lib st audio response0) = Inl e0 \<and>
           print_error st (PrintException e0) = Some e)) \<and>
   (case fst (ws_transcribe_raw db lib st audio) of
      Inr out \<Rightarrow>
        \<exists>t. json_loads out = Some (JObject [(ascii ''channel'',
          JObject [(ascii ''alternatives'', JArray [JObject [(ascii ''transcript'', JString t)]])])])
    | Inl e \<Rightarrow>
        (\<not> is_Exception e \<and> fst (ws_transcribe_raw_try db lib st audio response0) = Inl e) \<or>
        (\<exists>e0. is_Exception e0 \<and> fst (ws_transcribe_raw_try db lib st audio response0) = Inl e0 \<and>
           print_error st (PrintException e0) = Some e))"
proof
  show "case fst (ws_transcribe db lib st audio) of
      Inr out \<Rightarrow>
        \<exists>t. json_loads out = Some (JObject [(ascii ''channel'',
          JObject [(ascii ''alternatives'', JArray [JObject [(ascii ''transcript'', JString t)]])])])
    | Inl e \<Rightarrow>
        (\<not> is_Exception e \<and> whisper_transcribe lib (MODEL st) audio False = Inl e) \<or>
        (\<exists>e0. is_Exception e0 \<and> fst (ws_transcribe_try db lib st audio response0) = Inl e0 \<and>
           print_error st (PrintException e0) = Some e)"
  proof (cases "fst (ws_transcribe_try db lib st audio response0)")
    case (Inl e)
    then show ?thesis
      using json_loads_response_ex[of "[]"] ws_transcribe_try_propagated[of db lib st audio e]
      by (simp add: ws_transcribe_fst response0_with split: option.splits)
  next
    case (Inr r)
    from ws_transcribe_try_returns[OF Inr] obtain u where "r = response_with u" ..
    with Inr show ?thesis using json_loads_response_ex[of u] by (simp add: ws_transcribe_fst)
  qed
  show "case fst (ws_transcribe_raw db lib st audio) of
      Inr out \<Rightarrow>
        \<exists>t. json_loads out = Some (JObject [(ascii ''channel'',
          JObject [(ascii ''alternatives'', JArray [JObject [(ascii ''transcript'', JString t)]])])])
    | Inl e \<Rightarrow>
        (\<not> is_Exception e \<and> fst (ws_transcribe_raw_try db lib st audio response0) = Inl e) \<or>
        (\<exists>e0. is_Exception e0 \<and> fst (ws_transcribe_raw_try db lib st audio response0) = Inl e0 \<and>
           print_error st (PrintException e0) = Some e)"
  proof (cases "fst (ws_transcribe_raw_try db lib st audio response0)")
    case (Inl e)
    then show ?thesis
      using json_loads_response_ex[of "[]"]
      by (simp add: ws_transcribe_raw_fst response0_with split: option.splits)
  next
    case (Inr r)
    from ws_transcribe_raw_try_returns[OF Inr] obtain u where "r = response_with u" ..
    with Inr show ?thesis using json_loads_response_ex[of u] by (simp add: ws_transcribe_raw_fst)
  qed
qed

text \<open>At a stub that answers \<^verbatim>\<open>hi\<close>: the returned text and what it reads back as.\<close>

theorem ws_output_is_json_of_fixed_shape_witness:
  \<open>fst (ws_transcribe sample_db (stub_whisper (Inr 3) (says (ascii ''hi''))) state0 0) =
     Inr (ascii ''{"channel": {"alternatives": [{"transcript": "hi"}]}}'') \<and>
   json_loads (ascii ''{"channel": {"alternatives": [{"transcript": "hi"}]}}'') =
     Some (JObject [(ascii ''channel'', JObject [(ascii ''alternatives'',
       JArray [JObject [(ascii ''transcript'', JString (ascii ''hi''))]])])]) \<and>
   (\<exists>t. json_loads (ascii ''{"channel": {"alternatives": [{"transcript": "hi"}]}}'') =
     Some (JObject [(ascii ''channel'', JObject [(ascii ''alternatives'',
       JArray [JObject [(ascii ''transcript'', JString t)]])])]))\<close>
proof -
  have out: "fst (ws_transcribe sample_db (stub_whisper (Inr 3) (says (ascii ''hi''))) state0 0) =
        Inr (json_dumps (response_with (ascii ''hi'')))"
    using ws_transcribe_text[where result = "PyDict [(ascii ''text'', PyStr (ascii ''hi''))]"
        and lib = "stub_whisper (Inr 3) (says (ascii ''hi''))" and st = state0 and audio = 0
        and t = "ascii ''hi''" and db = sample_db]
    by (simp add: stub_simps says_def clean_text_hi)
  have loads: "json_loads (json_dumps (response_with (ascii ''hi''))) =
      Some (response_with (ascii ''hi''))"
    by (simp only: json_loads_response decoded_hi)
  from ws_output_is_json_of_fixed_shape
    [where db = sample_db and lib = "stub_whisper (Inr 3) (says (ascii ''hi''))"
       and st = state0 and audio = 0, THEN conjunct1]
  have "\<exists>t. json_loads (json_dumps (response_with (ascii ''hi''))) =
     Some (JObject [(ascii ''channel'', JObject [(ascii ''alternatives'',
       JArray [JObject [(ascii ''transcript'', JString t)]])])])"
    by (simp only: out sum.case)
  with out loads show ?thesis
    by (simp only: json_dumps_hi) (simp add: response_with_def)
qed

subsection \<open>C5: what the cleaning step produces\<close>

text \<open>
  Claim C5. The cleaned text is the input lowercased, with every character outside the
  classes \<^verbatim>\<open>\w\<close> and \<^verbatim>\<open>\s\<close> removed and leading and trailing whitespace trimmed:
  \<^item> it is what \<open>strip\<close> leaves of the lowercased input filtered to word and whitespace
    characters;
  \<^item> that filtered text is the cleaned text between a run of whitespace on the left and
    one on the right;
  \<^item> every character of the cleaned text is a word or a whitespace character;
  \<^item> the cleaned text neither starts nor ends with whitespace;
  \<^item> on ASCII input the lowercasing is the ASCII one, and no capital letter is left;
  \<^item> \<^verbatim>\<open>Hello, World! 123\<close> becomes \<^verbatim>\<open>hello world 123\<close>, whatever the Unicode tables.
\<close>

theorem clean_text_lowercases_filters_and_trims:
  "clean_text db s = strip db (filter (\<lambda>c. re_word db c \<or> re_space db c) (py_lower db s)) \<and>
   (\<exists>l r. filter (\<lambda>c. re_word db c \<or> re_space db c) (py_lower db s) = l @ clean_text db s @ r \<and>
      list_all (py_isspace db) l \<and> list_all (py_isspace db) r) \<and>
   list_all (\<lambda>c. re_word db c \<or> re_space db c) (clean_text db s) \<and>
   (clean_text db s \<noteq> [] \<longrightarrow>
      \<not> py_isspace db (hd (clean_text db s)) \<and> \<not> py_isspace db (last (clean_text db s))) \<and>
   (is_ascii s \<longrightarrow> py_lower db s = map ascii_lower s \<and>
      list_all (\<lambda>c. \<not> (65 \<le> c \<and> c \<le> 90)) (clean_text db s)) \<and>
   clean_text db (ascii ''Hello, World! 123'') = ascii ''hello world 123''"
  using clean_text_filter[of db s] clean_text_decomp[of db s] clean_text_kept[of db s]
    clean_text_ends[of db s] clean_text_ascii_no_upper[of s db] clean_text_hello[of db]
  by (simp add: py_lower_def)

text \<open>At the input \<^verbatim>\<open>Hello, World! 123\<close>.\<close>

theorem clean_text_lowercases_filters_and_trims_witness:
  "is_ascii (ascii ''Hello, World! 123'') \<and>
   clean_text sample_db (ascii ''Hello, World! 123'') = ascii ''hello world 123'' \<and>
   clean_text sample_db (ascii ''Hello, World! 123'') \<noteq> [] \<and>
   \<not> py_isspace sample_db (hd (clean_text sample_db (ascii ''Hello, World! 123''))) \<and>
   \<not> py_isspace sample_db (last (clean_text sample_db (ascii ''Hello, World! 123''))) \<and>
   list_all (\<lambda>c. \<not> (65 \<le> c \<and> c \<le> 90)) (clean_text sample_db (ascii ''Hello, World! 123''))"
proof -
  note T = clean_text_lowercases_filters_and_trims[of sample_db "ascii ''Hello, World! 123''"]
  have a: "is_ascii (ascii ''Hello, World! 123'')" by (simp add: is_ascii_def ascii_def)
  from T have c: "clean_text sample_db (ascii ''Hello, World! 123'') = ascii ''hello world 123''"
    by (elim conjE)
  then have ne: "clean_text sample_db (ascii ''Hello, World! 123'') \<noteq> []"
    by (simp add: ascii_def)
  from T have "clean_text sample_db (ascii ''Hello, World! 123'') \<noteq> [] \<longrightarrow>
      \<not> py_isspace sample_db (hd (clean_text sample_db (ascii ''Hello, World! 123''))) \<and>
      \<not> py_isspace sample_db (last (clean_text sample_db (ascii ''Hello, World! 123'')))"
    by (elim conjE)
  with ne have ends:
    "\<not> py_isspace sample_db (hd (clean_text sample_db (ascii ''Hello, World! 123''))) \<and>
     \<not> py_isspace sample_db (last (clean_text sample_db (ascii ''Hello, World! 123'')))"
    by (elim impE) assumption+
  from T have "is_ascii (ascii ''Hello, World! 123'') \<longrightarrow>
      py_lower sample_db (ascii ''Hello, World! 123'') = map ascii_lower (ascii ''Hello, World! 123'') \<and>
      list_all (\<lambda>c. \<not> (65 \<le> c \<and> c \<le> 90)) (clean_text sample_db (ascii ''Hello, World! 123''))"
    by (elim conjE)
  with a have up:
    "list_all (\<lambda>c. \<not> (65 \<le> c \<and> c \<le> 90)) (clean_text sample_db (ascii ''Hello, World! 123''))"
    by (elim impE conjE) assumption+
  from a c ne ends up show ?thesis by (intro conjI) (elim conjE, assumption)+
qed

subsection \<open>C6: cleaning is idempotent\<close>

text \<open>
  Claim C6. Cleaning a cleaned text changes nothing. For ASCII input this holds whatever
  the Unicode tables; for any other input it holds when the runtime's lowercasing is
  stable (\<open>lower_stable\<close>), a property of the tables that are a parameter here.
\<close>

theorem clean_text_idempotent:
  assumes "is_ascii s \<or> lower_stable db"
  shows "clean_text db (clean_text db s) = clean_text db s"
  using assms by (rule clean_text_idem)

text \<open>At an input that is not ASCII: a no-break space, a space, \<^verbatim>\<open>CAF\<close>, U+00C9, an
  exclamation mark and a space. It is cleaned to \<^verbatim>\<open>caf\<close> and U+00E9.\<close>

theorem clean_text_idempotent_witness:
  "\<not> is_ascii [160, 32, 67, 65, 70, 201, 33, 32] \<and> lower_stable sample_db \<and>
   clean_text sample_db [160, 32, 67, 65, 70, 201, 33, 32] = [99, 97, 102, 233] \<and>
   clean_text sample_db [99, 97, 102, 233] = [99, 97, 102, 233]"
proof -
  have "clean_text sample_db (clean_text sample_db [160, 32, 67, 65, 70, 201, 33, 32]) =
        clean_text sample_db [160, 32, 67, 65, 70, 201, 33, 32]"
    using lower_stable_sample_db by (intro clean_text_idempotent disjI2)
  then have "clean_text sample_db [99, 97, 102, 233] = [99, 97, 102, 233]"
    by (simp only: clean_text_cafe)
  moreover have "\<not> is_ascii [160, 32, 67, 65, 70, 201, 33, 32]" by (simp add: is_ascii_def)
  ultimately show ?thesis using lower_stable_sample_db clean_text_cafe by (intro conjI)
qed

subsection \<open>C7: module 1 returns the model's text as it is\<close>

text \<open>
  Claim C7. In module 1 with \<^verbatim>\<open>MODEL\<close> set, when \<^verbatim>\<open>whisper.transcribe\<close> returns a result,
  \<^verbatim>\<open>transcribe\<close> returns \<^verbatim>\<open>result["text"]\<close> itself, with no change to case, punctuation or
  whitespace, and prints nothing.
\<close>

theorem btfm_transcribe_returns_model_text:
  assumes "MODEL st = Some m" and "whisper_transcribe lib (Some m) audio fp16 = Inr result"
    and "py_getitem result (ascii ''text'') = Inr v"
  shows "fst (btfm_transcribe lib st audio fp16) = Inr v \<and>
         stdout (snd (btfm_transcribe lib st audio fp16)) = stdout st"
  using assms by (simp add: btfm_transcribe_text state_simps)

text \<open>At a stub that answers \<^verbatim>\<open>Hello, World! 123\<close> with a space before and after.\<close>

theorem btfm_transcribe_returns_model_text_witness:
  "MODEL (state0\<lparr>MODEL := Some 3\<rparr>) = Some 3 \<and>
   whisper_transcribe (stub_whisper (Inr 3) (says (ascii '' Hello, World! 123 ''))) (Some 3) 0 False =
     Inr (PyDict [(ascii ''text'', PyStr (ascii '' Hello, World! 123 ''))]) \<and>
   py_getitem (PyDict [(ascii ''text'', PyStr (ascii '' Hello, World! 123 ''))]) (ascii ''text'') =
     Inr (PyStr (ascii '' Hello, World! 123 '')) \<and>
   fst (btfm_transcribe (stub_whisper (Inr 3) (says (ascii '' Hello, World! 123 '')))
     (state0\<lparr>MODEL := Some 3\<rparr>) 0 False) = Inr (PyStr (ascii '' Hello, World! 123 ''))"
  using btfm_transcribe_returns_model_text
    [of "state0\<lparr>MODEL := Some 3\<rparr>" 3 "stub_whisper (Inr 3) (says (ascii '' Hello, World! 123 ''))"
        0 False "PyDict [(ascii ''text'', PyStr (ascii '' Hello, World! 123 ''))]"
        "PyStr (ascii '' Hello, World! 123 '')"]
  by (simp add: stub_simps says_def state0_def)

subsection \<open>C8: load_model, then transcribe, on non-empty model text\<close>

text \<open>
  Claim C8 says that after a successful \<^verbatim>\<open>load_model\<close>, whenever the model returns non-empty
  text, \<^verbatim>\<open>transcribe\<close> returns non-empty text. In module 2 the text goes through the
  cleaning step first, which can leave nothing: for the model text \<^verbatim>\<open>!\<close> the transcript
  that module 2 returns is the empty string.
\<close>

theorem ws_load_then_transcribe_counterexample:
  \<open>ws_load_model (stub_whisper (Inr 3) (says_if_loaded (ascii ''!''))) state0 (ascii ''base'') =
     (Inr (), \<lparr>MODEL = Some 3, stdout = [], print_error = (\<lambda>p. None), calls = [CallLoadModel]\<rparr>) \<and>
   whisper_transcribe (stub_whisper (Inr 3) (says_if_loaded (ascii ''!'')))
     (MODEL \<lparr>MODEL = Some 3, stdout = [], print_error = (\<lambda>p. None), calls = [CallLoadModel]\<rparr>) 0 False =
     Inr (PyDict [(ascii ''text'', PyStr (ascii ''!''))]) \<and>
   ascii ''!'' \<noteq> [] \<and>
   fst (ws_transcribe sample_db (stub_whisper (Inr 3) (says_if_loaded (ascii ''!'')))
     \<lparr>MODEL = Some 3, stdout = [], print_error = (\<lambda>p. None), calls = [CallLoadModel]\<rparr> 0) =
     Inr (ascii ''{"channel": {"alternatives": [{"transcript": ""}]}}'')\<close>
proof -
  let ?lib = "stub_whisper (Inr 3) (says_if_loaded (ascii ''!''))"
  let ?st = "\<lparr>MODEL = Some 3, stdout = [], print_error = (\<lambda>p. None), calls = [CallLoadModel]\<rparr> :: nat state"
  have 1: "ws_load_model ?lib state0 (ascii ''base'') = (Inr (), ?st)"
    by (simp add: ws_load_model_def stub_simps state0_def called_def)
  have 2: "whisper_transcribe ?lib (MODEL ?st) 0 False =
      Inr (PyDict [(ascii ''text'', PyStr (ascii ''!''))])"
    by (simp add: stub_simps says_if_loaded_def)
  have 3: "ascii ''!'' \<noteq> []" by (simp add: ascii_def)
  have "fst (ws_transcribe sample_db ?lib ?st 0) =
      Inr (json_dumps (response_with (clean_text sample_db (ascii ''!''))))"
    using 2 by (rule ws_transcribe_text) (simp add: ascii_def)
  then have 4: "fst (ws_transcribe sample_db ?lib ?st 0) =
      Inr (ascii ''{\"channel\": {\"alternatives\": [{\"transcript\": \"\"}]}}'')"
    by (simp only: clean_text_bang json_dumps_empty)
  from 1 2 3 4 show ?thesis by (intro conjI)
qed

text \<open>
  Claim C8, amended. After a successful \<^verbatim>\<open>load_model\<close>, when the inference call returns a
  result whose text is a string \<open>t\<close>: module 1's \<^verbatim>\<open>transcribe\<close> returns \<open>t\<close>, which is
  non-empty when \<open>t\<close> is; module 2's \<^verbatim>\<open>transcribe\<close> returns the response whose transcript is
  the cleaned \<open>t\<close>, and that transcript is non-empty exactly when the lowercased \<open>t\<close> has
  a word character that is not whitespace.
\<close>

theorem load_model_then_transcribe:
  "(btfm_load_model lib st0 path = (Inr (), st) \<and>
    whisper_transcribe lib (MODEL st) audio fp16 = Inr result \<and>
    py_getitem result (ascii ''text'') = Inr (PyStr t) \<and> t \<noteq> [] \<longrightarrow>
      fst (btfm_transcribe lib st audio fp16) = Inr (PyStr t) \<and> PyStr t \<noteq> PyStr []) \<and>
   (ws_load_model lib st0 path = (Inr (), st) \<and>
    whisper_transcribe lib (MODEL st) audio False = Inr result \<and>
    py_getitem result (ascii ''text'') = Inr (PyStr t) \<longrightarrow>
      fst (ws_transcribe db lib st audio) = Inr (json_dumps (response_with (clean_text db t))) \<and>
      (clean_text db t \<noteq> [] \<longleftrightarrow>
         list_ex (\<lambda>c. re_word db c \<and> \<not> re_space db c) (py_lower db t)))"
proof (intro conjI impI)
  assume a: "btfm_load_model lib st0 path = (Inr (), st) \<and>
    whisper_transcribe lib (MODEL st) audio fp16 = Inr result \<and>
    py_getitem result (ascii ''text'') = Inr (PyStr t) \<and> t \<noteq> []"
  then obtain m where m: "MODEL st = Some m" using btfm_load_model_loaded by blast
  with a show "fst (btfm_transcribe lib st audio fp16) = Inr (PyStr t)"
    by (simp add: btfm_transcribe_text[where result = result])
  from a show "PyStr t \<noteq> PyStr []" by simp
next
  assume a: "ws_load_model lib st0 path = (Inr (), st) \<and>
    whisper_transcribe lib (MODEL st) audio False = Inr result \<and>
    py_getitem result (ascii ''text'') = Inr (PyStr t)"
  then show "fst (ws_transcribe db lib st audio) = Inr (json_dumps (response_with (clean_text db t)))"
    by (simp add: ws_transcribe_text)
  show "clean_text db t \<noteq> [] \<longleftrightarrow>
         list_ex (\<lambda>c. re_word db c \<and> \<not> re_space db c) (py_lower db t)"
    by (rule clean_text_nonempty_iff)
qed

text \<open>At a stub that answers \<^verbatim>\<open>hi\<close> once a model is loaded.\<close>

theorem load_model_then_transcribe_witness:
  \<open>btfm_load_model (stub_whisper (Inr 3) (says_if_loaded (ascii ''hi''))) state0 (ascii ''base'') =
     (Inr (), \<lparr>MODEL = Some 3, stdout = [], print_error = (\<lambda>p. None), calls = [CallLoadModel]\<rparr>) \<and>
   ws_load_model (stub_whisper (Inr 3) (says_if_loaded (ascii ''hi''))) state0 (ascii ''base'') =
     (Inr (), \<lparr>MODEL = Some 3, stdout = [], print_error = (\<lambda>p. None), calls = [CallLoadModel]\<rparr>) \<and>
   whisper_transcribe (stub_whisper (Inr 3) (says_if_loaded (ascii ''hi'')))
     (MODEL \<lparr>MODEL = Some 3, stdout = [], print_error = (\<lambda>p. None), calls = [CallLoadModel]\<rparr>) 0 False =
     Inr (PyDict [(ascii ''text'', PyStr (ascii ''hi''))]) \<and>
   py_getitem (PyDict [(ascii ''text'', PyStr (ascii ''hi''))]) (ascii ''text'') =
     Inr (PyStr (ascii ''hi'')) \<and>
   ascii ''hi'' \<noteq> [] \<and>
   fst (btfm_transcribe (stub_whisper (Inr 3) (says_if_loaded (ascii ''hi'')))
     \<lparr>MODEL = Some 3, stdout = [], print_error = (\<lambda>p. None), calls = [CallLoadModel]\<rparr> 0 False) = Inr (PyStr (ascii ''hi'')) \<and>
   fst (ws_transcribe sample_db (stub_whisper (Inr 3) (says_if_loaded (ascii ''hi'')))
     \<lparr>MODEL = Some 3, stdout = [], print_error = (\<lambda>p. None), calls = [CallLoadModel]\<rparr> 0) =
     Inr (ascii ''{"channel": {"alternatives": [{"transcript": "hi"}]}}'') \<and>
   clean_text sample_db (ascii ''hi'') \<noteq> []\<close>
proof -
  let ?lib = "stub_whisper (Inr 3) (says_if_loaded (ascii ''hi''))"
  let ?st = "\<lparr>MODEL = Some 3, stdout = [], print_error = (\<lambda>p. None), calls = [CallLoadModel]\<rparr> :: nat state"
  let ?r = "PyDict [(ascii ''text'', PyStr (ascii ''hi''))]"
  note T = load_model_then_transcribe[where lib = ?lib and ?st0.0 = state0
      and path = "ascii ''base''" and st = ?st and audio = 0 and ?fp16.0 = False
      and result = ?r and t = "ascii ''hi''" and db = sample_db]
  have 1: "btfm_load_model ?lib state0 (ascii ''base'') = (Inr (), ?st)"
    by (simp add: btfm_load_model_def stub_simps state0_def called_def)
  have 2: "ws_load_model ?lib state0 (ascii ''base'') = (Inr (), ?st)"
    by (simp add: ws_load_model_def stub_simps state0_def called_def)
  have 3: "whisper_transcribe ?lib (MODEL ?st) 0 False = Inr ?r"
    by (simp add: stub_simps says_if_loaded_def)
  have 4: "py_getitem ?r (ascii ''text'') = Inr (PyStr (ascii ''hi''))" by (simp add: ascii_def)
  have 5: "ascii ''hi'' \<noteq> []" by (simp add: ascii_def)
  from T[THEN conjunct1] 1 3 4 5
  have 6: "fst (btfm_transcribe ?lib ?st 0 False) = Inr (PyStr (ascii ''hi''))" by blast
  from T[THEN conjunct2] 2 3 4
  have "fst (ws_transcribe sample_db ?lib ?st 0) =
      Inr (json_dumps (response_with (clean_text sample_db (ascii ''hi''))))" by blast
  then have 7: "fst (ws_transcribe sample_db ?lib ?st 0) =
      Inr (ascii ''{\"channel\": {\"alternatives\": [{\"transcript\": \"hi\"}]}}'')"
    by (simp only: clean_text_hi json_dumps_hi)
  have 8: "clean_text sample_db (ascii ''hi'') \<noteq> []"
    unfolding clean_text_hi by (simp add: ascii_def)
  from 1 2 3 4 5 6 7 8 show ?thesis by (intro conjI)
qed

subsection \<open>C9: load_model sets MODEL, or lets the load error through\<close>

text \<open>
  Claim C9. In both modules \<^verbatim>\<open>load_model\<close> stores the newly loaded model in \<^verbatim>\<open>MODEL\<close>,
  whatever was there before, and returns no value; when the library's load raises, the
  exception reaches the caller and \<^verbatim>\<open>MODEL\<close> keeps its value. Module 1 loads with the
  default \<^verbatim>\<open>in_memory=False\<close>, module 2 with \<^verbatim>\<open>in_memory=True\<close>. The last two conjuncts are
  the other side of the asymmetry: the same exception (an instance of \<^verbatim>\<open>Exception\<close>),
  raised by inference, is swallowed by \<^verbatim>\<open>transcribe\<close> once it is printed.
\<close>

theorem load_model_sets_MODEL_or_propagates:
  "(whisper_load_model lib path False = Inr m \<longrightarrow>
      fst (btfm_load_model lib st path) = Inr () \<and>
      MODEL (snd (btfm_load_model lib st path)) = Some m) \<and>
   (whisper_load_model lib path False = Inl e \<longrightarrow>
      fst (btfm_load_model lib st path) = Inl e \<and>
      MODEL (snd (btfm_load_model lib st path)) = MODEL st) \<and>
   (whisper_load_model lib path True = Inr m \<longrightarrow>
      fst (ws_load_model lib st path) = Inr () \<and>
      MODEL (snd (ws_load_model lib st path)) = Some m) \<and>
   (whisper_load_model lib path True = Inl e \<longrightarrow>
      fst (ws_load_model lib st path) = Inl e \<and>
      MODEL (snd (ws_load_model lib st path)) = MODEL st) \<and>
   (is_Exception e \<and> MODEL st = Some m' \<and> whisper_transcribe lib (Some m') audio fp16 = Inl e \<and>
    print_error st (PrintException e) = None \<longrightarrow>
      fst (btfm_transcribe lib st audio fp16) = Inr (PyStr [])) \<and>
   (is_Exception e \<and> whisper_transcribe lib (MODEL st) audio False = Inl e \<and>
    print_error st (PrintException e) = None \<longrightarrow>
      fst (ws_transcribe db lib st audio) = Inr (json_dumps response0))"
  by (simp add: btfm_load_model_def ws_load_model_def state_simps btfm_transcribe_caught
      print_and_return_fst ws_transcribe_fst ws_transcribe_try_fst)

text \<open>At a stub whose load returns the model 3, and at one whose load raises, each from a
  state that holds the model 5.\<close>

theorem load_model_sets_MODEL_or_propagates_witness:
  "whisper_load_model (stub_whisper (Inr 3) (fails (LibraryError 7))) (ascii ''base'') False = Inr 3 \<and>
   fst (btfm_load_model (stub_whisper (Inr 3) (fails (LibraryError 7)))
     (state0\<lparr>MODEL := Some 5\<rparr>) (ascii ''base'')) = Inr () \<and>
   MODEL (snd (btfm_load_model (stub_whisper (Inr 3) (fails (LibraryError 7)))
     (state0\<lparr>MODEL := Some 5\<rparr>) (ascii ''base''))) = Some 3 \<and>
   MODEL (snd (ws_load_model (stub_whisper (Inr 3) (fails (LibraryError 7)))
     (state0\<lparr>MODEL := Some 5\<rparr>) (ascii ''base''))) = Some 3 \<and>
   whisper_load_model (stub_whisper (Inl (LibraryError 7)) (fails (LibraryError 7)))
     (ascii ''base'') True = Inl (LibraryError 7) \<and>
   fst (btfm_load_model (stub_whisper (Inl (LibraryError 7)) (fails (LibraryError 7)))
     (state0\<lparr>MODEL := Some 5\<rparr>) (ascii ''base'')) = Inl (LibraryError 7) \<and>
   fst (ws_load_model (stub_whisper (Inl (LibraryError 7)) (fails (LibraryError 7)))
     (state0\<lparr>MODEL := Some 5\<rparr>) (ascii ''base'')) = Inl (LibraryError 7) \<and>
   MODEL (snd (ws_load_model (stub_whisper (Inl (LibraryError 7)) (fails (LibraryError 7)))
     (state0\<lparr>MODEL := Some 5\<rparr>) (ascii ''base''))) = Some 5 \<and>
   is_Exception (LibraryError 7) \<and>
   fst (btfm_transcribe (stub_whisper (Inl (LibraryError 7)) (fails (LibraryError 7)))
     (state0\<lparr>MODEL := Some 5\<rparr>) 0 False) = Inr (PyStr [])"
  using load_model_sets_MODEL_or_propagates
      [where lib = "stub_whisper (Inr 3) (fails (LibraryError 7))" and path = "ascii ''base''"
        and m = 3 and e = "LibraryError 7" and st = "state0\<lparr>MODEL := Some 5\<rparr>"
        and m' = 5 and audio = 0 and ?fp16.0 = False and db = sample_db]
    load_model_sets_MODEL_or_propagates
      [where lib = "stub_whisper (Inl (LibraryError 7)) (fails (LibraryError 7))"
        and path = "ascii ''base''"
        and m = 3 and e = "LibraryError 7" and st = "state0\<lparr>MODEL := Some 5\<rparr>"
        and m' = 5 and audio = 0 and ?fp16.0 = False and db = sample_db]
  by (simp add: stub_simps fails_def state0_def)

subsection \<open>C10: transcribe never writes MODEL\<close>

text \<open>
  Claim C10. In both modules a call of \<^verbatim>\<open>transcribe\<close>, and of \<^verbatim>\<open>transcribe_raw\<close> in module
  2, leaves \<^verbatim>\<open>MODEL\<close> as it was, whether inference succeeds, raises, or is never reached.
\<close>

theorem transcribe_leaves_MODEL_unchanged:
  "MODEL (snd (btfm_transcribe lib st audio fp16)) = MODEL st \<and>
   MODEL (snd (ws_transcribe db lib st audio)) = MODEL st \<and>
   MODEL (snd (ws_transcribe_raw db lib st audio)) = MODEL st"
  by (simp add: btfm_transcribe_MODEL ws_transcribe_def ws_transcribe_raw_def ws_finish_MODEL
      ws_transcribe_try_MODEL ws_transcribe_raw_try_MODEL)

text \<open>With a model loaded and with none, on success and on an exception.\<close>

theorem transcribe_leaves_MODEL_unchanged_witness:
  "MODEL (snd (btfm_transcribe (stub_whisper (Inr 3) (says (ascii ''hi'')))
     (state0\<lparr>MODEL := Some 5\<rparr>) 0 False)) = Some 5 \<and>
   MODEL (snd (ws_transcribe sample_db (stub_whisper (Inr 3) (fails (LibraryError 7)))
     (state0\<lparr>MODEL := Some 5\<rparr>) 0)) = Some 5 \<and>
   MODEL (snd (ws_transcribe_raw sample_db (stub_whisper (Inr 3) (says (ascii ''hi'')))
     state0 0)) = None"
  using transcribe_leaves_MODEL_unchanged
      [where lib = "stub_whisper (Inr 3) (says (ascii ''hi''))"
        and st = "state0\<lparr>MODEL := Some 5\<rparr>" and audio = 0 and ?fp16.0 = False and db = sample_db]
    transcribe_leaves_MODEL_unchanged
      [where lib = "stub_whisper (Inr 3) (fails (LibraryError 7))"
        and st = "state0\<lparr>MODEL := Some 5\<rparr>" and audio = 0 and ?fp16.0 = False and db = sample_db]
    transcribe_leaves_MODEL_unchanged
      [where lib = "stub_whisper (Inr 3) (says (ascii ''hi''))"
        and st = state0 and audio = 0 and ?fp16.0 = False and db = sample_db]
  by (simp add: state0_def)

end
